theory Spec2Isabelle
  imports Main "HOL-Library.AList" "HOL-Library.Sublist"
begin

section \<open>JavaScript values used by the server\<close>

text \<open>
  JavaScript strings are modelled as \<^typ>\<open>string\<close>: every code unit of the texts handled
  here (engine output, metric names, argument vectors) is taken to be below 256, so the
  only line terminators that can occur are line feed and carriage return.

  A plain JavaScript object is an association list in insertion order with distinct keys.
  Writing a property that exists keeps its position and replaces its value, which is what
  \<^const>\<open>AList.update\<close> does.  (JavaScript lists integer-like keys first; no function
  below depends on the order of the keys.)
\<close>

type_synonym 'v js_object = "(string \<times> 'v) list"

definition obj_assign :: "'v js_object \<Rightarrow> 'v js_object \<Rightarrow> 'v js_object" where
  \<comment> \<open>the spread \<open>{...target, ...source}\<close>: the properties of \<open>source\<close> are written
      one by one, in order, over \<open>target\<close>\<close>
  "obj_assign target source = foldl (\<lambda>acc (k, v). AList.update k v acc) target source"

definition fromEntries :: "(string \<times> 'v) list \<Rightarrow> 'v js_object" where
  \<comment> \<open>\<open>Object.fromEntries\<close>: a later entry with the same key wins\<close>
  "fromEntries entries = obj_assign [] entries"

definition obj_get :: "'v js_object \<Rightarrow> string \<Rightarrow> 'v option" where
  "obj_get obj k = map_of obj k"

definition obj_keys :: "'v js_object \<Rightarrow> string list" where
  "obj_keys obj = map fst obj"


subsection \<open>String methods\<close>

fun indexOf_from :: "nat \<Rightarrow> string \<Rightarrow> string \<Rightarrow> int" where
  "indexOf_from i [] needle = (if needle = [] then int i else -1)"
| "indexOf_from i (c # cs) needle =
     (if prefix needle (c # cs) then int i else indexOf_from (Suc i) cs needle)"

definition indexOf :: "string \<Rightarrow> string \<Rightarrow> int" where
  \<comment> \<open>\<open>s.indexOf(needle)\<close>: the index of the first occurrence, \<open>-1\<close> when there is none\<close>
  "indexOf s needle = indexOf_from 0 s needle"

definition slice :: "string \<Rightarrow> int \<Rightarrow> string" where
  \<comment> \<open>\<open>s.slice(start)\<close>: a negative start counts from the end, and both are clamped\<close>
  "slice s start =
     (if start < 0 then drop (nat (max (int (length s) + start) 0)) s
      else drop (nat start) s)"

definition is_line_terminator :: "char \<Rightarrow> bool" where
  "is_line_terminator c = (c = CHR 0x0A \<or> c = CHR 0x0D)"

definition is_white_space :: "char \<Rightarrow> bool" where
  \<comment> \<open>what \<open>trimEnd\<close> strips: tab, line feed, vertical tab, form feed, carriage
      return, space and no-break space\<close>
  "is_white_space c =
     (c = CHR 0x09 \<or> c = CHR 0x0A \<or> c = CHR 0x0B \<or> c = CHR 0x0C \<or> c = CHR 0x0D
      \<or> c = CHR 0x20 \<or> c = CHR 0xA0)"

definition trimEnd :: "string \<Rightarrow> string" where
  "trimEnd s = rev (dropWhile is_white_space (rev s))"

definition remove_quotes :: "string \<Rightarrow> string" where
  \<comment> \<open>\<open>name.replace(/"/g, '')\<close>\<close>
  "remove_quotes s = filter (\<lambda>c. c \<noteq> CHR 0x22) s"

definition newlines_to_commas :: "string \<Rightarrow> string" where
  \<comment> \<open>\<open>text.replace(/\n/g, ',')\<close>\<close>
  "newlines_to_commas s = map (\<lambda>c. if c = CHR 0x0A then CHR '','' else c) s"

fun join :: "string \<Rightarrow> string list \<Rightarrow> string" where
  \<comment> \<open>\<open>Array.prototype.join\<close> on an array of strings\<close>
  "join sep [] = []"
| "join sep [x] = x"
| "join sep (x # y # ys) = x @ sep @ join sep (y # ys)"

definition truthy :: "string option \<Rightarrow> bool" where
  \<comment> \<open>truthiness of a value that is a string or \<open>undefined\<close>\<close>
  "truthy v = (case v of None \<Rightarrow> False | Some s \<Rightarrow> s \<noteq> [])"

subsection \<open>The regular expression \<open>/\{.*\}/g\<close>\<close>

text \<open>
  A match of \<open>\{.*\}\<close> at the head of a text: the text starts with an opening brace;
  \<open>.*\<close> first takes every character up to the next line terminator and then gives
  characters back until a closing brace follows, so the match ends at the last closing
  brace of the line.
\<close>

definition brace_match_here :: "string \<Rightarrow> string option" where
  "brace_match_here s =
     (case s of
        [] \<Rightarrow> None
      | c # cs \<Rightarrow>
          if c \<noteq> CHR ''{'' then None
          else
            let line = takeWhile (\<lambda>x. \<not> is_line_terminator x) cs;
                upto = rev (dropWhile (\<lambda>x. x \<noteq> CHR ''}'') (rev line))
            in if upto = [] then None else Some (c # upto))"

text \<open>
  \<open>text.match(/\{.*\}/g)\<close>: all matches from left to right, each search starting where
  the previous match ended.  The empty list stands for the result \<open>null\<close>.
\<close>

function brace_matches :: "string \<Rightarrow> string list" where
  "brace_matches [] = []"
| "brace_matches (c # cs) =
     (case brace_match_here (c # cs) of
        None \<Rightarrow> brace_matches cs
      | Some m \<Rightarrow> m # brace_matches (drop (length m) (c # cs)))"
  by pat_completeness auto
termination
proof (relation "measure length")
  fix c cs m
  assume "brace_match_here (c # cs) = Some m"
  then have "m \<noteq> []"
    by (auto simp: brace_match_here_def Let_def split: if_splits)
  then show "(drop (length m) (c # cs), c # cs) \<in> measure length"
    by (cases m) auto
qed auto


subsection \<open>Errors\<close>

text \<open>
  What the code can throw: the two built-in errors raised by \<open>JSON.parse\<close> and by a
  property access on \<open>null\<close> or \<open>undefined\<close>, the error of \<open>execFileSync\<close> and
  \<open>execSync\<close> for a child that exits non-zero (it carries the child's captured standard
  output), a plain \<open>new Error(message)\<close> (the message is absent when the argument is
  \<open>undefined\<close>), Node's error for writing a response whose headers were sent, and the
  error thrown by the constructor of a GraphQL schema.
\<close>

datatype js_error =
    SyntaxError
  | TypeError
  | ChildProcessError string
  | JsError "string option"
  | HeadersSentError
  | SchemaError

definition and_then :: "'e + 'a \<Rightarrow> ('a \<Rightarrow> 'e + 'b) \<Rightarrow> 'e + 'b" where
  \<comment> \<open>sequencing: a thrown error skips what follows\<close>
  "and_then r f = (case r of Inl e \<Rightarrow> Inl e | Inr x \<Rightarrow> f x)"

subsection \<open>JSON values\<close>

text \<open>
  A number \<open>JNumber m e\<close> is the decimal \<open>m * 10 ^ e\<close>, kept in a normal form: \<open>e = 0\<close>
  for an integer, and otherwise \<open>e < 0\<close> with \<open>m\<close> not divisible by ten.  (JavaScript
  rounds it to a double; nothing below computes with numbers.)
\<close>

datatype json =
    JNull
  | JBool bool
  | JNumber int int
  | JString string
  | JArray "json list"
  | JObject "(string \<times> json) list"

fun json_truthy :: "json option \<Rightarrow> bool" where
  "json_truthy None = False"
| "json_truthy (Some JNull) = False"
| "json_truthy (Some (JBool b)) = b"
| "json_truthy (Some (JNumber m e)) = (m \<noteq> 0)"
| "json_truthy (Some (JString s)) = (s \<noteq> [])"
| "json_truthy (Some (JArray _)) = True"
| "json_truthy (Some (JObject _)) = True"

subsection \<open>\<open>JSON.parse\<close>\<close>

definition is_digit :: "char \<Rightarrow> bool" where
  "is_digit c = ((48::nat) \<le> of_char c \<and> (of_char c :: nat) \<le> 57)"

definition digit_value :: "char \<Rightarrow> nat" where
  "digit_value c = of_char c - 48"

definition digits_value :: "string \<Rightarrow> nat" where
  "digits_value ds = foldl (\<lambda>a c. 10 * a + digit_value c) 0 ds"

fun normalise_decimal :: "int \<Rightarrow> nat \<Rightarrow> int \<times> int" where
  \<comment> \<open>\<open>m * 10 ^ (- k)\<close> without trailing zeros in the mantissa\<close>
  "normalise_decimal m 0 = (m, 0)"
| "normalise_decimal m (Suc k) =
     (if m mod 10 = 0 then normalise_decimal (m div 10) k else (m, - int (Suc k)))"

definition decimal :: "int \<Rightarrow> int \<Rightarrow> json" where
  "decimal m e =
     (if 0 \<le> e then JNumber (m * 10 ^ nat e) 0
      else case normalise_decimal m (nat (- e)) of (m', e') \<Rightarrow> JNumber m' e')"

text \<open>
  The JSON number grammar on a whole lexeme: an optional minus sign, an integer part
  without a superfluous leading zero, an optional fraction, an optional exponent.
\<close>

definition parse_exponent :: "string \<Rightarrow> int option" where
  "parse_exponent s =
     (case s of
        [] \<Rightarrow> Some 0
      | c # r \<Rightarrow>
          if c = CHR ''e'' \<or> c = CHR ''E'' then
            (let (neg, ds) =
               (case r of
                  [] \<Rightarrow> (False, r)
                | d # r' \<Rightarrow>
                    if d = CHR ''-'' then (True, r')
                    else if d = CHR ''+'' then (False, r') else (False, r))
             in if ds \<noteq> [] \<and> list_all is_digit ds
                then Some (if neg then - int (digits_value ds) else int (digits_value ds))
                else None)
          else None)"

definition parse_number :: "string \<Rightarrow> json option" where
  "parse_number lexeme =
     (let (neg, r1) =
        (case lexeme of
           [] \<Rightarrow> (False, lexeme)
         | c # r \<Rightarrow> if c = CHR ''-'' then (True, r) else (False, lexeme));
          ip = takeWhile is_digit r1;
          r2 = dropWhile is_digit r1;
          (frac_ok, fp, r3) =
            (case r2 of
               [] \<Rightarrow> (True, [], r2)
             | c # r \<Rightarrow>
                 if c = CHR ''.''
                 then (takeWhile is_digit r \<noteq> [], takeWhile is_digit r, dropWhile is_digit r)
                 else (True, [], r2))
      in if (ip = ''0'' \<or> (ip \<noteq> [] \<and> hd ip \<noteq> CHR ''0'')) \<and> frac_ok
         then (case parse_exponent r3 of
                 None \<Rightarrow> None
               | Some ex \<Rightarrow>
                   let m = int (digits_value (ip @ fp))
                   in Some (decimal (if neg then - m else m) (ex - int (length fp))))
         else None)"

datatype frame =
    ArrStart
  | ArrVal "json list"
  | ArrComma "json list"
  | ObjStart
  | ObjKey "(string \<times> json) list" string
  | ObjColon "(string \<times> json) list" string
  | ObjVal "(string \<times> json) list"
  | ObjComma "(string \<times> json) list"

text \<open>
  The parser reads the text once, character by character.  Its state is the stack of
  open arrays and objects (each with what it holds so far, newest first, and what it
  expects next), or the finished top-level value.
\<close>

datatype pstate = Pending "frame list" | Complete json

datatype token =
    TBeginArray | TEndArray | TBeginObject | TEndObject | TColon | TComma
  | TString string
  | TScalar json

fun expects_value :: "frame list \<Rightarrow> bool" where
  "expects_value [] = True"
| "expects_value (ArrStart # _) = True"
| "expects_value (ArrComma _ # _) = True"
| "expects_value (ObjColon _ _ # _) = True"
| "expects_value _ = False"

fun put_value :: "json \<Rightarrow> frame list \<Rightarrow> pstate option" where
  "put_value v [] = Some (Complete v)"
| "put_value v (ArrStart # st) = Some (Pending (ArrVal [v] # st))"
| "put_value v (ArrComma vs # st) = Some (Pending (ArrVal (v # vs) # st))"
| "put_value v (ObjColon kvs k # st) = Some (Pending (ObjVal ((k, v) # kvs) # st))"
| "put_value v _ = None"

fun feed :: "token \<Rightarrow> pstate \<Rightarrow> pstate option" where
  "feed t (Complete v) = None"
| "feed TBeginArray (Pending st) =
     (if expects_value st then Some (Pending (ArrStart # st)) else None)"
| "feed TBeginObject (Pending st) =
     (if expects_value st then Some (Pending (ObjStart # st)) else None)"
| "feed TEndArray (Pending st) =
     (case st of
        ArrStart # r \<Rightarrow> put_value (JArray []) r
      | ArrVal vs # r \<Rightarrow> put_value (JArray (rev vs)) r
      | _ \<Rightarrow> None)"
| "feed TEndObject (Pending st) =
     (case st of
        ObjStart # r \<Rightarrow> put_value (JObject []) r
      | ObjVal kvs # r \<Rightarrow> put_value (JObject (fromEntries (rev kvs))) r
      | _ \<Rightarrow> None)"
| "feed TComma (Pending st) =
     (case st of
        ArrVal vs # r \<Rightarrow> Some (Pending (ArrComma vs # r))
      | ObjVal kvs # r \<Rightarrow> Some (Pending (ObjComma kvs # r))
      | _ \<Rightarrow> None)"
| "feed TColon (Pending st) =
     (case st of
        ObjKey kvs k # r \<Rightarrow> Some (Pending (ObjColon kvs k # r))
      | _ \<Rightarrow> None)"
| "feed (TString s) (Pending st) =
     (case st of
        ObjStart # r \<Rightarrow> Some (Pending (ObjKey [] s # r))
      | ObjComma kvs # r \<Rightarrow> Some (Pending (ObjKey kvs s # r))
      | _ \<Rightarrow> put_value (JString s) st)"
| "feed (TScalar v) (Pending st) = put_value v st"


datatype lexer =
    Idle
  | InString string
  | InEscape string
  | InUnicode string nat nat
  | InNumber string
  | InLiteral string json

definition is_json_space :: "char \<Rightarrow> bool" where
  "is_json_space c = (c = CHR 0x20 \<or> c = CHR 0x09 \<or> c = CHR 0x0A \<or> c = CHR 0x0D)"

definition is_number_char :: "char \<Rightarrow> bool" where
  "is_number_char c =
     (is_digit c \<or> c = CHR ''-'' \<or> c = CHR ''+'' \<or> c = CHR ''.'' \<or> c = CHR ''e''
      \<or> c = CHR ''E'')"

definition hex_digit :: "char \<Rightarrow> nat option" where
  "hex_digit c =
     (let n = (of_char c :: nat)
      in if 48 \<le> n \<and> n \<le> 57 then Some (n - 48)
         else if 65 \<le> n \<and> n \<le> 70 then Some (n - 55)
         else if 97 \<le> n \<and> n \<le> 102 then Some (n - 87)
         else None)"

definition unescape :: "char \<Rightarrow> char option" where
  \<comment> \<open>the character after a backslash in a JSON string, apart from \<open>u\<close>\<close>
  "unescape c =
     (if c = CHR 0x22 then Some (CHR 0x22)
      else if c = CHR 0x5C then Some (CHR 0x5C)
      else if c = CHR ''/'' then Some (CHR ''/'')
      else if c = CHR ''b'' then Some (CHR 0x08)
      else if c = CHR ''f'' then Some (CHR 0x0C)
      else if c = CHR ''n'' then Some (CHR 0x0A)
      else if c = CHR ''r'' then Some (CHR 0x0D)
      else if c = CHR ''t'' then Some (CHR 0x09)
      else None)"

definition with_lexer :: "lexer \<Rightarrow> pstate option \<Rightarrow> (lexer \<times> pstate) option" where
  "with_lexer l r = map_option (\<lambda>ps. (l, ps)) r"

definition idle_char :: "char \<Rightarrow> pstate \<Rightarrow> (lexer \<times> pstate) option" where
  "idle_char c ps =
     (if is_json_space c then Some (Idle, ps)
      else if c = CHR ''['' then with_lexer Idle (feed TBeginArray ps)
      else if c = CHR '']'' then with_lexer Idle (feed TEndArray ps)
      else if c = CHR ''{'' then with_lexer Idle (feed TBeginObject ps)
      else if c = CHR ''}'' then with_lexer Idle (feed TEndObject ps)
      else if c = CHR '':'' then with_lexer Idle (feed TColon ps)
      else if c = CHR '','' then with_lexer Idle (feed TComma ps)
      else if c = CHR 0x22 then Some (InString [], ps)
      else if c = CHR ''-'' \<or> is_digit c then Some (InNumber [c], ps)
      else if c = CHR ''t'' then Some (InLiteral ''rue'' (JBool True), ps)
      else if c = CHR ''f'' then Some (InLiteral ''alse'' (JBool False), ps)
      else if c = CHR ''n'' then Some (InLiteral ''ull'' JNull, ps)
      else None)"

definition finish_number :: "string \<Rightarrow> pstate \<Rightarrow> pstate option" where
  \<comment> \<open>the characters of a number, newest first, are complete\<close>
  "finish_number acc ps =
     (case parse_number (rev acc) of None \<Rightarrow> None | Some v \<Rightarrow> feed (TScalar v) ps)"

text \<open>
  One character.  Inside a string a control character is an error; an escape \<open>\uXXXX\<close>
  for a code unit above 255 has no counterpart in \<^typ>\<open>string\<close> and is rejected by
  this model.  A number ends at the first character that cannot continue it, and that
  character is then read in the idle state.
\<close>

fun step :: "char \<Rightarrow> lexer \<times> pstate \<Rightarrow> (lexer \<times> pstate) option" where
  "step c (Idle, ps) = idle_char c ps"
| "step c (InString acc, ps) =
     (if c = CHR 0x22 then with_lexer Idle (feed (TString (rev acc)) ps)
      else if c = CHR 0x5C then Some (InEscape acc, ps)
      else if (of_char c :: nat) < 32 then None
      else Some (InString (c # acc), ps))"
| "step c (InEscape acc, ps) =
     (case unescape c of
        Some d \<Rightarrow> Some (InString (d # acc), ps)
      | None \<Rightarrow> if c = CHR ''u'' then Some (InUnicode acc 0 0, ps) else None)"
| "step c (InUnicode acc n k, ps) =
     (case hex_digit c of
        None \<Rightarrow> None
      | Some d \<Rightarrow>
          if k < 3 then Some (InUnicode acc (16 * n + d) (Suc k), ps)
          else if 16 * n + d < 256 then Some (InString (char_of (16 * n + d) # acc), ps)
          else None)"
| "step c (InNumber acc, ps) =
     (if is_number_char c then Some (InNumber (c # acc), ps)
      else case finish_number acc ps of
             None \<Rightarrow> None
           | Some ps' \<Rightarrow> idle_char c ps')"
| "step c (InLiteral rest v, ps) =
     (case rest of
        [] \<Rightarrow> None
      | r # rs \<Rightarrow>
          if c \<noteq> r then None
          else if rs = [] then with_lexer Idle (feed (TScalar v) ps)
          else Some (InLiteral rs v, ps))"

fun run :: "string \<Rightarrow> lexer \<times> pstate \<Rightarrow> (lexer \<times> pstate) option" where
  "run [] s = Some s"
| "run (c # cs) s = (case step c s of None \<Rightarrow> None | Some s' \<Rightarrow> run cs s')"

fun finish :: "lexer \<times> pstate \<Rightarrow> json option" where
  "finish (Idle, Complete v) = Some v"
| "finish (InNumber acc, ps) =
     (case finish_number acc ps of Some (Complete v) \<Rightarrow> Some v | _ \<Rightarrow> None)"
| "finish _ = None"

definition JSON_parse :: "string \<Rightarrow> js_error + json" where
  "JSON_parse text =
     (case run text (Idle, Pending []) of
        None \<Rightarrow> Inl SyntaxError
      | Some s \<Rightarrow> (case finish s of None \<Rightarrow> Inl SyntaxError | Some v \<Rightarrow> Inr v))"

subsection \<open>\<open>JSON.stringify\<close>\<close>

definition digit_char :: "nat \<Rightarrow> char" where
  "digit_char n = char_of (48 + n)"

function show_nat :: "nat \<Rightarrow> string" where
  "show_nat n = (if n < 10 then [digit_char n] else show_nat (n div 10) @ [digit_char (n mod 10)])"
  by pat_completeness auto
termination
  by (relation "measure id") auto

definition show_number :: "int \<Rightarrow> int \<Rightarrow> string" where
  \<comment> \<open>the decimal form; JavaScript switches to exponent notation from \<open>1e21\<close> on and
      below \<open>1e-6\<close>\<close>
  "show_number m e =
     (let sign = (if m < 0 then ''-'' else []);
          ds = show_nat (nat \<bar>m\<bar>);
          k = nat (- e);
          padded = replicate (Suc k - length ds) (CHR ''0'') @ ds
      in if 0 \<le> e then sign @ show_nat (nat \<bar>m\<bar> * 10 ^ nat e)
         else sign @ take (length padded - k) padded @ ''.'' @ drop (length padded - k) padded)"

definition hex_char :: "nat \<Rightarrow> char" where
  "hex_char n = (if n < 10 then char_of (48 + n) else char_of (87 + n))"

definition quote_char :: "char \<Rightarrow> string" where
  "quote_char c =
     (if c = CHR 0x22 then [CHR 0x5C, CHR 0x22]
      else if c = CHR 0x5C then [CHR 0x5C, CHR 0x5C]
      else if c = CHR 0x08 then [CHR 0x5C, CHR ''b'']
      else if c = CHR 0x0C then [CHR 0x5C, CHR ''f'']
      else if c = CHR 0x0A then [CHR 0x5C, CHR ''n'']
      else if c = CHR 0x0D then [CHR 0x5C, CHR ''r'']
      else if c = CHR 0x09 then [CHR 0x5C, CHR ''t'']
      else if (of_char c :: nat) < 32
        then [CHR 0x5C, CHR ''u'', CHR ''0'', CHR ''0'',
              hex_char (of_char c div 16), hex_char (of_char c mod 16)]
      else [c])"

definition quote :: "string \<Rightarrow> string" where
  "quote s = [CHR 0x22] @ concat (map quote_char s) @ [CHR 0x22]"

fun JSON_stringify :: "json \<Rightarrow> string"
  and stringify_elements :: "json list \<Rightarrow> string list"
  and stringify_members :: "(string \<times> json) list \<Rightarrow> string list" where
  "JSON_stringify JNull = ''null''"
| "JSON_stringify (JBool b) = (if b then ''true'' else ''false'')"
| "JSON_stringify (JNumber m e) = show_number m e"
| "JSON_stringify (JString s) = quote s"
| "JSON_stringify (JArray vs) = ''['' @ join '','' (stringify_elements vs) @ '']''"
| "JSON_stringify (JObject kvs) = ''{'' @ join '','' (stringify_members kvs) @ ''}''"
| "stringify_elements [] = []"
| "stringify_elements (v # vs) = JSON_stringify v # stringify_elements vs"
| "stringify_members [] = []"
| "stringify_members ((k, v) # kvs) =
     (quote k @ '':'' @ JSON_stringify v) # stringify_members kvs"

definition object_literal :: "(string \<times> json option) list \<Rightarrow> json" where
  \<comment> \<open>an object literal \<open>{k1, k2, ...}\<close> as \<open>JSON.stringify\<close> sees it: a property whose
      value is \<open>undefined\<close> is left out\<close>
  "object_literal props =
     JObject (fromEntries
       (concat (map (\<lambda>(k, v). case v of None \<Rightarrow> [] | Some j \<Rightarrow> [(k, j)]) props)))"

section \<open>The external engine\<close>

text \<open>
  A call of \<open>child_process\<close>.  \<open>execFileSync(file, args, {cwd, env})\<close> starts \<open>file\<close>
  with the argument vector \<open>args\<close>, no shell in between; \<open>execSync(command)\<close> hands the
  whole command line to a shell.  The engine, \<open>dbt\<close>, is outside the program: it is a
  function from the call to what the child did, and every function below that starts a
  child takes it as its first argument.
\<close>

datatype launch =
    ExecFileSync string "string list" string "(string \<times> string) list"
  | ExecSync string

datatype child = Exited string | Failed string

type_synonym engine = "launch \<Rightarrow> child"

definition run_child :: "engine \<Rightarrow> launch \<Rightarrow> js_error + string" where
  \<comment> \<open>the captured standard output, or the error thrown for a non-zero exit\<close>
  "run_child engine l =
     (case engine l of Exited out \<Rightarrow> Inr out | Failed out \<Rightarrow> Inl (ChildProcessError out))"

fun uses_shell :: "launch \<Rightarrow> bool" where
  "uses_shell (ExecSync _) = True"
| "uses_shell (ExecFileSync _ _ _ _) = False"

fun argument_vector :: "launch \<Rightarrow> string list option" where
  "argument_vector (ExecFileSync _ args _ _) = Some args"
| "argument_vector (ExecSync _) = None"


section \<open>services/MetricService/DbtLocalMetricService.ts\<close>

text \<open>
  The fields of an instance, as the constructor leaves them.  \<open>process.env\<close> is an
  argument (\<open>penv\<close>) of the functions that read it.
\<close>

record DbtLocalMetricService =
  dbtProjectPath :: string
  dbtProfilePath :: "string option"
  profile :: "string option"
  credentials :: "(string \<times> string) list option"
  target :: "string option"

record Selectors =
  sel_type :: "string option"
  sel_model :: "string option"
  sel_package_name :: "string option"

definition flag :: "string \<Rightarrow> string option \<Rightarrow> string list" where
  \<comment> \<open>\<open>...(value ? [name, value] : [])\<close>\<close>
  "flag name v = (case v of None \<Rightarrow> [] | Some x \<Rightarrow> if x = [] then [] else [name, x])"

definition connection_flags :: "DbtLocalMetricService \<Rightarrow> string list" where
  "connection_flags this =
     flag ''--target'' (target this) @ flag ''--profile'' (profile this)
     @ flag ''--profiles-dir'' (dbtProfilePath this)"

definition child_env :: "(string \<times> string) list \<Rightarrow> DbtLocalMetricService \<Rightarrow> (string \<times> string) list" where
  \<comment> \<open>\<open>{...process.env, ...this.credentials}\<close>\<close>
  "child_env penv this =
     obj_assign (obj_assign [] penv) (case credentials this of None \<Rightarrow> [] | Some c \<Rightarrow> c)"

subsection \<open>\<open>listMetrics\<close>\<close>

definition select :: "string option \<Rightarrow> string" where
  \<comment> \<open>line 148\<close>
  "select name =
     (case name of
        None \<Rightarrow> []
      | Some n \<Rightarrow> if n = [] then [] else ''metric:'' @ remove_quotes n)"

definition listMetrics_args :: "DbtLocalMetricService \<Rightarrow> string option \<Rightarrow> string list" where
  \<open>listMetrics_args this name =
     [''ls''] @ connection_flags this
     @ (if select name \<noteq> [] then [''--select'', select name] else [])
     @ [''--resource-type'', ''metric'', ''--output'', ''json'', ''--output-keys'',
        ''"name model label description type time_grains dimensions filters unique_id package_name"'']\<close>

definition listMetrics_launch ::
  "(string \<times> string) list \<Rightarrow> DbtLocalMetricService \<Rightarrow> string option \<Rightarrow> launch" where
  "listMetrics_launch penv this name =
     ExecFileSync ''dbt'' (listMetrics_args this name) (dbtProjectPath this) (child_env penv this)"

definition listMetrics_text :: "string \<Rightarrow> string" where
  \<comment> \<open>lines 149-176: the text handed to \<open>JSON.parse\<close>.  Without a match \<open>match\<close> gives
      \<open>null\<close>, \<open>?.toString()\<close> gives \<open>undefined\<close>, and the concatenation spells it out\<close>
  "listMetrics_text out =
     ''['' @ (case brace_matches (trimEnd out) of
               [] \<Rightarrow> ''undefined''
             | m # ms \<Rightarrow> join '','' (m # ms))
     @ '']''"

text \<open>
  \<open>metric.key\<close> on a parsed value, for the keys \<open>type\<close>, \<open>model\<close> and \<open>package_name\<close>:
  \<open>null\<close> throws, an object gives its property, and every other value gives
  \<open>undefined\<close>, since no prototype defines one of these keys.
\<close>

fun get_property :: "json \<Rightarrow> string \<Rightarrow> js_error + json option" where
  "get_property JNull k = Inl TypeError"
| "get_property (JObject kvs) k = Inr (obj_get kvs k)"
| "get_property _ k = Inr None"

fun filter_by :: "string \<Rightarrow> string \<Rightarrow> json list \<Rightarrow> js_error + json list" where
  \<comment> \<open>\<open>metrics.filter(metric => metric[key] === wanted)\<close>\<close>
  "filter_by key wanted [] = Inr []"
| "filter_by key wanted (metric # rest) =
     (case get_property metric key of
        Inl e \<Rightarrow> Inl e
      | Inr v \<Rightarrow>
          (case filter_by key wanted rest of
             Inl e \<Rightarrow> Inl e
           | Inr kept \<Rightarrow> Inr (if v = Some (JString wanted) then metric # kept else kept)))"

definition apply_selector :: "string \<Rightarrow> string option \<Rightarrow> json list \<Rightarrow> js_error + json list" where
  \<comment> \<open>\<open>if (selector) { metrics = metrics.filter(...) }\<close>\<close>
  "apply_selector key selector metrics =
     (if truthy selector then filter_by key (case selector of Some w \<Rightarrow> w | None \<Rightarrow> []) metrics
      else Inr metrics)"

definition parsed_array :: "json \<Rightarrow> js_error + json list" where
  \<comment> \<open>the parsed text starts with a bracket, so the value is an array; \<open>filter\<close> on
      anything else would throw\<close>
  "parsed_array v = (case v of JArray vs \<Rightarrow> Inr vs | _ \<Rightarrow> Inl TypeError)"

definition listMetrics ::
  "engine \<Rightarrow> (string \<times> string) list \<Rightarrow> DbtLocalMetricService \<Rightarrow> string option \<Rightarrow> Selectors
     \<Rightarrow> js_error + json list" where
  "listMetrics engine penv this name selectors =
     and_then (run_child engine (listMetrics_launch penv this name)) (\<lambda>out.
     and_then (JSON_parse (listMetrics_text out)) (\<lambda>parsed.
     and_then (parsed_array parsed) (\<lambda>metrics.
     and_then (apply_selector ''type'' (sel_type selectors) metrics) (\<lambda>metrics.
     and_then (apply_selector ''model'' (sel_model selectors) metrics) (\<lambda>metrics.
     apply_selector ''package_name'' (sel_package_name selectors) metrics)))))"

subsection \<open>\<open>queryMetric\<close>\<close>

text \<open>
  \<open>QueryParams\<close> is declared in \<open>types/index.js\<close>; its fields are the ones
  \<open>queryMetric\<close> destructures, typed as \<open>metricResolver\<close> fills them.
\<close>

record QueryParams =
  metric_name :: string
  grain :: string
  dimensions :: "string list option"
  start_date :: "string option"
  end_date :: "string option"
  format :: "string option"

definition BREAK_STRING :: string where
  "BREAK_STRING = ''<<<MAPI-BEGIN>>>\<newline>''"

definition run_metric_args :: "QueryParams \<Rightarrow> string" where
  \<comment> \<open>lines 212-219; \<open>format\<close> defaults to \<open>'json'\<close>\<close>
  "run_metric_args params =
     JSON_stringify (object_literal
       [(''metric_name'', Some (JString (metric_name params))),
        (''grain'', Some (JString (grain params))),
        (''dimensions'', map_option (\<lambda>ds. JArray (map JString ds)) (dimensions params)),
        (''start_date'', map_option JString (start_date params)),
        (''end_date'', map_option JString (end_date params)),
        (''format'', Some (JString (case format params of None \<Rightarrow> ''json'' | Some f \<Rightarrow> f)))])"

definition queryMetric_launch ::
  "(string \<times> string) list \<Rightarrow> DbtLocalMetricService \<Rightarrow> QueryParams \<Rightarrow> launch" where
  "queryMetric_launch penv this params =
     ExecFileSync ''dbt''
       ([''run-operation''] @ connection_flags this
        @ [''dbt_metrics_api.run_metric'', ''--args'', run_metric_args params])
       (dbtProjectPath this) (child_env penv this)"

definition payload :: "string \<Rightarrow> string" where
  \<comment> \<open>line 229\<close>
  "payload raw_output =
     slice raw_output (indexOf raw_output BREAK_STRING + int (length BREAK_STRING))"

fun rethrown :: "js_error \<Rightarrow> js_error" where
  \<comment> \<open>line 234: \<open>new Error(error.stdout)\<close>; only the error of a failed child has a
      \<open>stdout\<close>\<close>
  "rethrown (ChildProcessError out) = JsError (Some out)"
| "rethrown _ = JsError None"

definition queryMetric ::
  "engine \<Rightarrow> (string \<times> string) list \<Rightarrow> DbtLocalMetricService \<Rightarrow> QueryParams \<Rightarrow> js_error + json" where
  "queryMetric engine penv this params =
     (case and_then (run_child engine (queryMetric_launch penv this params))
             (\<lambda>raw_output. JSON_parse (payload raw_output)) of
        Inl error \<Rightarrow> Inl (rethrown error)
      | Inr v \<Rightarrow> Inr v)"

section \<open>index.ts\<close>

definition env_text :: "string option \<Rightarrow> string" where
  \<comment> \<open>an environment variable inside a template literal; an unset one prints as
      \<open>undefined\<close>\<close>
  "env_text v = (case v of None \<Rightarrow> ''undefined'' | Some s \<Rightarrow> s)"

subsection \<open>\<open>listMetrics\<close> and \<open>GET /list\<close>\<close>

definition index_select :: "string option \<Rightarrow> string" where
  \<comment> \<open>line 46\<close>
  \<open>index_select name =
     (case name of
        None \<Rightarrow> []
      | Some n \<Rightarrow> if n = [] then [] else ''--select "metric:'' @ remove_quotes n @ ''"'')\<close>

definition index_listMetrics_command :: "(string \<times> string) list \<Rightarrow> string option \<Rightarrow> string" where
  \<comment> \<open>lines 50-53; a backslash at the end of a line of the template joins the lines\<close>
  \<open>index_listMetrics_command penv name =
     ''cd '' @ env_text (obj_get penv ''DBT_PROJECT_PATH'') @ '' &&''
     @ ''        dbt ls --resource-type metric --output json ''
     @ ''        --output-keys "name model label description type time_grains dimensions filters unique_id" ''
     @ ''        '' @ index_select name\<close>

definition index_listMetrics_text :: "string \<Rightarrow> string" where
  \<comment> \<open>lines 48-58\<close>
  "index_listMetrics_text out = ''['' @ newlines_to_commas (trimEnd out) @ '']''"

definition index_listMetrics ::
  "engine \<Rightarrow> (string \<times> string) list \<Rightarrow> string option \<Rightarrow> string option \<Rightarrow> string option
     \<Rightarrow> js_error + json list" where
  "index_listMetrics engine penv name type model =
     and_then (run_child engine (ExecSync (index_listMetrics_command penv name))) (\<lambda>out.
     and_then (JSON_parse (index_listMetrics_text out)) (\<lambda>parsed.
     and_then (parsed_array parsed) (\<lambda>metrics.
     and_then (apply_selector ''type'' type metrics) (\<lambda>metrics.
     apply_selector ''model'' model metrics))))"

text \<open>
  A response as the client receives it.  \<open>res.send\<close> writes the response; a second
  \<open>send\<close> on the same response throws, because the headers are already out.  The status
  and the content type set before the first \<open>send\<close> are the ones that go out.
\<close>

datatype body = Text string | Json json | ErrorObject js_error

record response =
  rsp_status :: nat
  rsp_type :: string
  rsp_body :: body

record res =
  statusCode :: nat
  contentType :: string
  sent :: "response option"

definition send :: "body \<Rightarrow> res \<Rightarrow> js_error + res" where
  "send b r =
     (case sent r of
        Some _ \<Rightarrow> Inl HeadersSentError
      | None \<Rightarrow>
          Inr (r\<lparr>sent := Some \<lparr>rsp_status = statusCode r, rsp_type = contentType r, rsp_body = b\<rparr>\<rparr>))"

text \<open>
  What a handler did: the response that went out (if any), the children it started, in
  order, and the error that escaped it (if any).
\<close>

record outcome =
  responded :: "response option"
  launched :: "launch list"
  escaped :: "js_error option"

definition list_handler ::
  "engine \<Rightarrow> (string \<times> string) list \<Rightarrow> string option \<Rightarrow> string option \<Rightarrow> string option
     \<Rightarrow> outcome" where
  \<comment> \<open>lines 70-80\<close>
  "list_handler engine penv name type model =
     (let r0 = \<lparr>statusCode = 200, contentType = ''application/json'', sent = None\<rparr>;
          l = ExecSync (index_listMetrics_command penv name);
          done = (case index_listMetrics engine penv name type model of
                    Inr metrics \<Rightarrow> send (Text (JSON_stringify (JArray metrics))) r0
                  | Inl error \<Rightarrow> send (ErrorObject error) (r0\<lparr>statusCode := 404\<rparr>))
      in case done of
           Inr r \<Rightarrow> \<lparr>responded = sent r, launched = [l], escaped = None\<rparr>
         | Inl e \<Rightarrow> \<lparr>responded = None, launched = [l], escaped = Some e\<rparr>)"

subsection \<open>\<open>POST /run\<close>\<close>

text \<open>
  The parsed request body: each of the five properties is a JSON value or absent.
  \<open>req.accepts(['json', 'csv'])\<close> answers \<open>'json'\<close>, \<open>'csv'\<close> or \<open>false\<close>.
\<close>

record run_body =
  body_metric_name :: "json option"
  body_grain :: "json option"
  body_dimensions :: "json option"
  body_start_date :: "json option"
  body_end_date :: "json option"

datatype accepted = AcceptsJson | AcceptsCsv | AcceptsNeither

definition run_format :: "accepted \<Rightarrow> string" where
  \<comment> \<open>lines 86-95\<close>
  "run_format a = (case a of AcceptsCsv \<Rightarrow> ''csv'' | _ \<Rightarrow> ''json'')"

definition run_command :: "(string \<times> string) list \<Rightarrow> string \<Rightarrow> run_body \<Rightarrow> string" where
  \<comment> \<open>lines 109-120\<close>
  "run_command penv fmt b =
     ''cd '' @ env_text (obj_get penv ''DBT_PROJECT_PATH'') @ '' &&''
     @ ''            dbt run-operation --target '' @ env_text (obj_get penv ''DBT_TARGET'')
     @ '' dbt_metrics_api.run_metric --args '' @ [CHR 0x27]
     @ JSON_stringify (object_literal
         [(''metric_name'', body_metric_name b),
          (''grain'', body_grain b),
          (''dimensions'', body_dimensions b),
          (''start_date'', body_start_date b),
          (''end_date'', body_end_date b),
          (''format'', Some (JString fmt))])
     @ [CHR 0x27] @ ''\<newline>        ''"

definition missing_metric_name :: body where
  "missing_metric_name =
     Json (JObject [(''error'', JString ''metric_name is a required property; no metric_name given'')])"

definition missing_grain :: body where
  "missing_grain =
     Json (JObject [(''error'', JString ''grain is a required property; no grain given'')])"

definition run_try :: "engine \<Rightarrow> launch \<Rightarrow> res \<Rightarrow> js_error + res" where
  \<comment> \<open>lines 107-128: the \<open>try\<close> block, then the \<open>catch\<close> block for whatever it threw\<close>
  "run_try engine l r =
     (case and_then (run_child engine l)
             (\<lambda>raw_output. send (Text (slice raw_output (indexOf raw_output ''\<newline>'' + 1))) r) of
        Inr r' \<Rightarrow> Inr r'
      | Inl error \<Rightarrow> send (ErrorObject error) (r\<lparr>statusCode := 404\<rparr>))"

definition run_handler :: "engine \<Rightarrow> (string \<times> string) list \<Rightarrow> accepted \<Rightarrow> run_body \<Rightarrow> outcome" where
  \<comment> \<open>lines 83-129.  Neither \<open>if\<close> returns: after a 400 the handler goes on\<close>
  "run_handler engine penv a b =
     (let r0 = \<lparr>statusCode = 200,
                contentType = (case a of AcceptsCsv \<Rightarrow> ''text/csv'' | _ \<Rightarrow> ''application/json''),
                sent = None\<rparr>;
          l = ExecSync (run_command penv (run_format a) b);
          r1 = (if json_truthy (body_metric_name b) then Inr r0
                else send missing_metric_name (r0\<lparr>statusCode := 400\<rparr>))
      in case r1 of
           Inl e \<Rightarrow> \<lparr>responded = None, launched = [], escaped = Some e\<rparr>
         | Inr r1 \<Rightarrow>
             (case (if json_truthy (body_grain b) then Inr r1
                    else send missing_grain (r1\<lparr>statusCode := 400\<rparr>)) of
                Inl e \<Rightarrow> \<lparr>responded = sent r1, launched = [], escaped = Some e\<rparr>
              | Inr r2 \<Rightarrow>
                  (case run_try engine l r2 of
                     Inr r3 \<Rightarrow> \<lparr>responded = sent r3, launched = [l], escaped = None\<rparr>
                   | Inl e \<Rightarrow> \<lparr>responded = sent r2, launched = [l], escaped = Some e\<rparr>)))"

section \<open>routes/graphql.ts: the synthesized schema\<close>

text \<open>
  The interface \<open>DBTResource\<close> (index.ts, lines 26-36).  The record fields carry the
  prefix \<open>res_\<close>; \<open>res_name\<close> is the property \<open>name\<close>, and so on.
\<close>

record DBTResource =
  res_name :: string
  res_label :: string
  res_description :: string
  res_type :: string
  res_time_grains :: string
  res_dimensions :: "string list"
  res_filters :: "string list"
  res_unique_id :: string
  res_model :: string

definition metric_with :: "string \<Rightarrow> string list \<Rightarrow> DBTResource" where
  \<comment> \<open>a metric with the given name and dimensions, the other properties empty\<close>
  "metric_with n ds =
     \<lparr>res_name = n, res_label = [], res_description = [], res_type = [], res_time_grains = [],
      res_dimensions = ds, res_filters = [], res_unique_id = [], res_model = []\<rparr>"

text \<open>
  The part of graphql-js that \<open>graphqlInit\<close> builds: scalar types, the two wrappers and
  object types.  A field configuration is \<open>{type}\<close> or \<open>{type, args}\<close>.
\<close>

datatype gql_type =
    GraphQLString
  | GraphQLFloat
  | GraphQLList gql_type
  | GraphQLNonNull gql_type
  | GraphQLObjectType string "(string \<times> gql_field) list"
and gql_field =
    FieldConfig gql_type "(string \<times> gql_type) list option"



definition metricToGraphQLType :: "DBTResource \<Rightarrow> gql_type" where
  \<comment> \<open>graphql.ts, lines 30-41: the object literal writes \<open>period\<close>, then the computed key
      \<open>[metric.name]\<close>, then spreads one entry per dimension\<close>
  "metricToGraphQLType metric =
     GraphQLObjectType (res_name metric)
       (obj_assign
          (AList.update (res_name metric) (FieldConfig GraphQLFloat None)
             (AList.update ''period'' (FieldConfig GraphQLString None) []))
          (fromEntries
             (map (\<lambda>dimension. (dimension, FieldConfig GraphQLString None))
                (res_dimensions metric))))"




subsection \<open>\<open>metricResolver\<close>\<close>

text \<open>
  The part of a query document the resolver reads: a field node has a name and, when
  sub-fields were requested, a selection set; a selection is a field, a fragment spread
  (which has a name too) or an inline fragment (which has no name, and a selection set
  of its own).
\<close>

datatype selection =
    Field field_node
  | FragmentSpread string
  | InlineFragment "selection list"
and field_node =
    FieldNode string "selection list option"

fun node_name :: "field_node \<Rightarrow> string" where
  "node_name (FieldNode n _) = n"

fun selectionSet :: "field_node \<Rightarrow> selection list option" where
  "selectionSet (FieldNode _ s) = s"

fun selection_name :: "selection \<Rightarrow> js_error + string" where
  \<comment> \<open>\<open>(selection as FieldNode).name.value\<close>: the cast checks nothing\<close>
  "selection_name (Field (FieldNode n _)) = Inr n"
| "selection_name (FragmentSpread n) = Inr n"
| "selection_name (InlineFragment _) = Inl TypeError"

fun selection_names :: "selection list \<Rightarrow> js_error + string list" where
  "selection_names [] = Inr []"
| "selection_names (s # ss) =
     and_then (selection_name s) (\<lambda>n. and_then (selection_names ss) (\<lambda>ns. Inr (n # ns)))"

record MetricArgs =
  arg_grain :: string
  arg_start_date :: "string option"
  arg_end_date :: "string option"

definition NON_DIMENSION_FIELDS :: "string \<Rightarrow> string list" where
  "NON_DIMENSION_FIELDS fieldName = [fieldName, ''period'']"

definition requested_dimensions :: "string \<Rightarrow> field_node list \<Rightarrow> js_error + string list option" where
  \<comment> \<open>lines 87-94; \<open>const [node] = fieldNodes\<close> takes the first node\<close>
  "requested_dimensions fieldName fieldNodes =
     (case fieldNodes of
        [] \<Rightarrow> Inl TypeError
      | node # _ \<Rightarrow>
          (case selectionSet node of
             None \<Rightarrow> Inr None
           | Some selections \<Rightarrow>
               and_then (selection_names selections) (\<lambda>names.
               Inr (Some (filter (\<lambda>field. field \<notin> set (NON_DIMENSION_FIELDS fieldName)) names)))))"

definition resolver_params :: "MetricArgs \<Rightarrow> string \<Rightarrow> field_node list \<Rightarrow> js_error + QueryParams" where
  \<comment> \<open>lines 90-96: the object passed to \<open>queryMetric\<close>\<close>
  "resolver_params args fieldName fieldNodes =
     and_then (requested_dimensions fieldName fieldNodes) (\<lambda>ds.
     Inr \<lparr>metric_name = fieldName, grain = arg_grain args, dimensions = ds,
          start_date = arg_start_date args, end_date = arg_end_date args, format = None\<rparr>)"


subsection \<open>\<open>graphqlInit\<close> and the router\<close>

datatype schema = GraphQLSchema gql_type

datatype resolver = MetricResolver

text \<open>
  The router is its stack of layers: \<open>router.post('/refresh', refreshSchema)\<close>, and for
  every call of \<open>graphqlInit\<close> one \<open>router.use('/', ...)\<close>, which is either the
  \<open>graphqlHTTP\<close> middleware for a schema and its root value or the function that calls
  \<open>graphqlInit\<close> again and passes the request on.  \<open>router.use\<close> appends; nothing removes
  a layer.  The console is the list of what was logged.
\<close>

datatype layer =
    PostRefresh
  | GraphqlHTTP schema "resolver js_object"
  | Reinit

datatype log_entry = Warn js_error | Info schema

record router =
  stack :: "layer list"
  console :: "log_entry list"

definition query_field :: "DBTResource \<Rightarrow> string \<times> gql_field" where
  \<comment> \<open>lines 55-65\<close>
  "query_field metric =
     (res_name metric,
      FieldConfig (GraphQLList (metricToGraphQLType metric))
        (Some [(''grain'', GraphQLNonNull GraphQLString),
               (''start_date'', GraphQLString),
               (''end_date'', GraphQLString)]))"

definition QueryType :: "DBTResource list \<Rightarrow> gql_type" where
  "QueryType availableMetrics =
     GraphQLObjectType ''Query'' (obj_assign [] (fromEntries (map query_field availableMetrics)))"

definition root :: "DBTResource list \<Rightarrow> resolver js_object" where
  \<comment> \<open>lines 100-102\<close>
  "root availableMetrics =
     foldl (\<lambda>prev current. obj_assign (obj_assign [] prev) [(res_name current, MetricResolver)])
       [] availableMetrics"

subsection \<open>\<open>new GraphQLSchema\<close>\<close>

text \<open>
  The constructor of graphql-js 15 (the line of graphql-js that express-graphql works
  with) collects the named types the schema refers to: those reached from the query type
  through the types of its fields and of their arguments, those of the standard
  directives and the introspection types.  It throws when one of them has an empty name
  and when two different ones have the same name.  It checks nothing else; the
  constructors of the object and list types check nothing about names.  Two types are the
  same object here exactly when they are equal as values: the scalars are shared, and
  after \<open>Object.fromEntries\<close> the query type keeps one field, hence one object type, per
  metric name.
\<close>

fun type_name :: "gql_type \<Rightarrow> string" where
  \<comment> \<open>the name of the named type inside the wrappers\<close>
  "type_name GraphQLString = ''String''"
| "type_name GraphQLFloat = ''Float''"
| "type_name (GraphQLList t) = type_name t"
| "type_name (GraphQLNonNull t) = type_name t"
| "type_name (GraphQLObjectType n _) = n"

fun referenced :: "gql_type \<Rightarrow> gql_type list"
  and referenced_fields :: "(string \<times> gql_field) list \<Rightarrow> gql_type list"
  and referenced_field :: "gql_field \<Rightarrow> gql_type list"
  and referenced_args :: "(string \<times> gql_type) list \<Rightarrow> gql_type list" where
  "referenced GraphQLString = [GraphQLString]"
| "referenced GraphQLFloat = [GraphQLFloat]"
| "referenced (GraphQLList t) = referenced t"
| "referenced (GraphQLNonNull t) = referenced t"
| "referenced (GraphQLObjectType n fs) = GraphQLObjectType n fs # referenced_fields fs"
| "referenced_fields [] = []"
| "referenced_fields ((k, f) # fs) = referenced_field f @ referenced_fields fs"
| "referenced_field (FieldConfig t None) = referenced t"
| "referenced_field (FieldConfig t (Some args)) = referenced t @ referenced_args args"
| "referenced_args [] = []"
| "referenced_args ((k, t) # args) = referenced t @ referenced_args args"

definition builtin_type_names :: "string list" where
  \<comment> \<open>the types of the standard directives and of introspection other than \<open>String\<close>\<close>
  "builtin_type_names =
     [''Boolean'', ''__Schema'', ''__Type'', ''__TypeKind'', ''__Field'', ''__InputValue'',
      ''__EnumValue'', ''__Directive'', ''__DirectiveLocation'']"

definition schema_type_names :: "gql_type \<Rightarrow> string list" where
  \<comment> \<open>one name for each type of the schema whose query type is given\<close>
  "schema_type_names query =
     map type_name (remdups (referenced query @ [GraphQLString])) @ builtin_type_names"

definition new_GraphQLSchema :: "gql_type \<Rightarrow> js_error + schema" where
  "new_GraphQLSchema query =
     (if distinct (schema_type_names query) \<and> [] \<notin> set (schema_type_names query)
      then Inr (GraphQLSchema query)
      else Inl SchemaError)"

text \<open>
  \<open>listMetrics\<close> is imported from \<open>services/metricService.js\<close> as well; what the call gave
  (a list of metrics, or the error it threw) is the first argument of \<open>graphqlInit\<close>.
\<close>

type_synonym discovery = "js_error + DBTResource list"

definition availableMetrics_of :: "discovery \<Rightarrow> DBTResource list" where
  \<comment> \<open>lines 43-49\<close>
  "availableMetrics_of d = (case d of Inl error \<Rightarrow> [] | Inr ms \<Rightarrow> ms)"

text \<open>
  \<open>graphqlInit\<close> gives the router it leaves behind and the error it threw, if any.  Only
  the discovery is inside the \<open>try\<close>.  The schema is built after it, at line 70: when the
  constructor throws, the warning of a failed discovery is already logged, nothing else
  is, and no layer has been added.
\<close>

definition graphqlInit :: "discovery \<Rightarrow> router \<Rightarrow> router \<times> js_error option" where
  "graphqlInit d rt =
     (let availableMetrics = availableMetrics_of d;
          warned = (case d of Inl error \<Rightarrow> [Warn error] | Inr ms \<Rightarrow> [])
      in case new_GraphQLSchema (QueryType availableMetrics) of
           Inl thrown \<Rightarrow> (rt\<lparr>console := console rt @ warned\<rparr>, Some thrown)
         | Inr schema \<Rightarrow>
             (\<lparr>stack = stack rt
                        @ [if obj_keys (root availableMetrics) \<noteq> []
                           then GraphqlHTTP schema (root availableMetrics)
                           else Reinit],
               console = console rt @ warned @ [Info schema]\<rparr>,
              None))"

definition refreshSchema :: "discovery \<Rightarrow> router \<Rightarrow> router \<times> (js_error + nat)" where
  \<comment> \<open>lines 24-27: the router left behind, and the status of the response or the error
      that escaped the handler\<close>
  "refreshSchema d rt =
     (case graphqlInit d rt of
        (rt', Some thrown) \<Rightarrow> (rt', Inl thrown)
      | (rt', None) \<Rightarrow> (rt', Inr 200))"

definition initial_router :: router where
  \<comment> \<open>line 117, when the module is loaded\<close>
  "initial_router = \<lparr>stack = [PostRefresh], console = []\<rparr>"

text \<open>
  A query arriving at the router goes down the stack from layer \<open>i\<close>.  The refresh
  route does not match it.  A \<open>graphqlHTTP\<close> layer answers it from its own schema and
  root value and ends the request.  A re-initialising layer calls \<open>graphqlInit\<close>, whose
  discovery result is the next element of \<open>ds\<close>, and then \<open>next()\<close>; the layer just
  appended is part of the stack the request then walks.  When \<open>graphqlInit\<close> throws
  there, Express takes the error to its error handling and the request skips every
  layer behind.  The result is \<open>None\<close> when \<open>ds\<close> has no element left for a discovery the
  walk needs.
\<close>

datatype served = Answered schema "resolver js_object" | Unhandled | Raised js_error

function dispatch :: "discovery list \<Rightarrow> nat \<Rightarrow> router \<Rightarrow> (served \<times> router) option" where
  "dispatch ds i rt =
     (if length (stack rt) \<le> i then Some (Unhandled, rt)
      else case stack rt ! i of
             PostRefresh \<Rightarrow> dispatch ds (Suc i) rt
           | GraphqlHTTP sch rv \<Rightarrow> Some (Answered sch rv, rt)
           | Reinit \<Rightarrow>
               (case ds of
                  [] \<Rightarrow> None
                | d # ds' \<Rightarrow>
                    (case graphqlInit d rt of
                       (rt', Some thrown) \<Rightarrow> Some (Raised thrown, rt')
                     | (rt', None) \<Rightarrow> dispatch ds' (Suc i) rt')))"
  by pat_completeness auto
termination
  by (relation "measures [\<lambda>(ds, i, rt). length ds, \<lambda>(ds, i, rt). length (stack rt) - i]") auto

definition published :: "router \<Rightarrow> (schema \<times> resolver js_object) option" where
  \<comment> \<open>the schema and root value of the first \<open>graphqlHTTP\<close> layer\<close>
  "published rt =
     (case filter (\<lambda>l. case l of GraphqlHTTP _ _ \<Rightarrow> True | _ \<Rightarrow> False) (stack rt) of
        GraphqlHTTP sch rv # _ \<Rightarrow> Some (sch, rv)
      | _ \<Rightarrow> None)"

fun is_graphqlHTTP :: "layer \<Rightarrow> bool" where
  "is_graphqlHTTP (GraphqlHTTP _ _) = True"
| "is_graphqlHTTP _ = False"

definition reinits_before_answer :: "router \<Rightarrow> nat" where
  \<comment> \<open>the re-initialising layers a query passes before it reaches a \<open>graphqlHTTP\<close> layer\<close>
  "reinits_before_answer rt =
     length (filter (\<lambda>l. l = Reinit) (takeWhile (\<lambda>l. \<not> is_graphqlHTTP l) (stack rt)))"

definition discovery_accepted :: "discovery \<Rightarrow> bool" where
  \<comment> \<open>the schema constructor accepts the catalog of this discovery\<close>
  "discovery_accepted d =
     (case new_GraphQLSchema (QueryType (availableMetrics_of d)) of
        Inl _ \<Rightarrow> False
      | Inr _ \<Rightarrow> True)"


section \<open>Inputs used in the statements\<close>

definition object_line :: "string \<Rightarrow> bool" where
  \<comment> \<open>a line of discovery output that holds one object: it runs from an opening to a
      closing brace and contains no line terminator\<close>
  "object_line s =
     (2 \<le> length s \<and> hd s = CHR ''{'' \<and> last s = CHR ''}''
      \<and> list_all (\<lambda>c. \<not> is_line_terminator c) s)"

definition no_selectors :: Selectors where
  "no_selectors = \<lparr>sel_type = None, sel_model = None, sel_package_name = None\<rparr>"

definition example_service :: DbtLocalMetricService where
  "example_service =
     \<lparr>dbtProjectPath = ''/srv/dbt'', dbtProfilePath = None, profile = None,
      credentials = None, target = Some ''prod''\<rparr>"

definition body_without_grain :: run_body where
  \<comment> \<open>the request body \<open>{"metric_name": "revenue"}\<close>\<close>
  "body_without_grain =
     \<lparr>body_metric_name = Some (JString ''revenue''), body_grain = None, body_dimensions = None,
      body_start_date = None, body_end_date = None\<rparr>"

text \<open>
  In the words of the spec: the sub-fields requested for a field, which are the fields
  selected in any of its nodes, directly or inside an inline fragment.  (The fields of a
  named fragment are in its definition, which the resolver does not see.)
\<close>

fun spec_subfields :: "selection \<Rightarrow> string list"
  and spec_subfields_list :: "selection list \<Rightarrow> string list" where
  "spec_subfields (Field f) = [node_name f]"
| "spec_subfields (FragmentSpread _) = []"
| "spec_subfields (InlineFragment ss) = spec_subfields_list ss"
| "spec_subfields_list [] = []"
| "spec_subfields_list (s # ss) = spec_subfields s @ spec_subfields_list ss"



definition revenue_schema :: schema where
  "revenue_schema = GraphQLSchema (QueryType [metric_with ''revenue'' [''region'']])"

definition revenue_router :: router where
  \<comment> \<open>the router after a discovery that failed at start-up and a later one that found
      the metric \<open>revenue\<close>\<close>
  "revenue_router =
     fst (graphqlInit (Inr [metric_with ''revenue'' [''region'']])
            (fst (graphqlInit (Inl (ChildProcessError ''Runtime Error'')) initial_router)))"


section \<open>Properties of the schema synthesis\<close>













subsection \<open>The dimensions a typed query asks for\<close>





lemma requested_dimensions_inline_fragment:
  "requested_dimensions F (FieldNode n (Some (InlineFragment inner # selections)) # others)
     = Inl TypeError"
  by (simp add: requested_dimensions_def and_then_def)

lemma resolver_dimensions_example:
  "resolver_params args ''revenue''
     [FieldNode ''revenue''
        (Some [Field (FieldNode ''period'' None), Field (FieldNode ''revenue'' None),
               Field (FieldNode ''region'' None)])]
   = Inr \<lparr>metric_name = ''revenue'', grain = arg_grain args, dimensions = Some [''region''],
          start_date = arg_start_date args, end_date = arg_end_date args, format = None\<rparr>"
  by (simp add: resolver_params_def requested_dimensions_def NON_DIMENSION_FIELDS_def
      and_then_def)

section \<open>Discovery output\<close>

lemma object_line_split:
  assumes "object_line s"
  obtains body where "s = CHR ''{'' # body" "body \<noteq> []" "last body = CHR ''}''"
    "list_all (\<lambda>c. \<not> is_line_terminator c) body"
proof (cases s)
  case Nil
  with assms show thesis by (simp add: object_line_def)
next
  case (Cons c body)
  with assms have "c = CHR ''{''" "body \<noteq> []" "last body = CHR ''}''"
    "list_all (\<lambda>c. \<not> is_line_terminator c) body"
    by (auto simp: object_line_def split: if_splits)
  with Cons that show thesis by simp
qed

lemma brace_match_here_line:
  assumes "object_line s" and "rest = [] \<or> is_line_terminator (hd rest)"
  shows "brace_match_here (s @ rest) = Some s"
proof -
  from assms(1) obtain body where s: "s = CHR ''{'' # body" and ne: "body \<noteq> []"
    and l: "last body = CHR ''}''" and nl: "list_all (\<lambda>c. \<not> is_line_terminator c) body"
    by (rule object_line_split)
  have tw: "takeWhile (\<lambda>x. \<not> is_line_terminator x) (body @ rest) = body"
  proof (cases rest)
    case Nil
    with nl show ?thesis by (simp add: list_all_iff)
  next
    case (Cons r rs)
    with assms(2) have "is_line_terminator r" by simp
    with nl Cons show ?thesis by (simp add: list_all_iff takeWhile_tail)
  qed
  from ne l obtain init where body: "body = init @ [CHR ''}'']"
    by (metis append_butlast_last_id)
  have dw: "rev (dropWhile (\<lambda>x. x \<noteq> CHR ''}'') (rev body)) = body"
    by (simp add: body)
  have mem: "CHR ''}'' \<in> set body"
    by (simp add: body)
  show ?thesis
    using mem by (simp add: s brace_match_here_def tw dw Let_def)
qed

lemma brace_match_here_newline: "brace_match_here (CHR 0x0A # rest) = None"
  by (simp add: brace_match_here_def)

lemma brace_matches_line_then:
  assumes "object_line s"
  shows "brace_matches (s @ CHR 0x0A # rest) = s # brace_matches rest"
proof -
  from assms obtain body where s: "s = CHR ''{'' # body"
    by (rule object_line_split)
  have m: "brace_match_here (CHR ''{'' # body @ CHR 0x0A # rest) = Some s"
    using brace_match_here_line [OF assms, of "CHR 0x0A # rest"]
    by (simp add: s is_line_terminator_def)
  have "brace_matches (CHR ''{'' # body @ CHR 0x0A # rest)
          = s # brace_matches (drop (length s) (CHR ''{'' # body @ CHR 0x0A # rest))"
    by (simp add: m del: drop_Suc_Cons)
  also have "drop (length s) (CHR ''{'' # body @ CHR 0x0A # rest) = CHR 0x0A # rest"
    by (simp add: s)
  also have "brace_matches (CHR 0x0A # rest) = brace_matches rest"
    by (simp add: brace_match_here_newline)
  finally show ?thesis by (simp add: s)
qed

lemma brace_matches_line_last:
  assumes "object_line s"
  shows "brace_matches s = [s]"
proof -
  from assms obtain body where s: "s = CHR ''{'' # body"
    by (rule object_line_split)
  have m: "brace_match_here (CHR ''{'' # body) = Some s"
    using brace_match_here_line [OF assms, of "[]"] by (simp add: s)
  have "brace_matches (CHR ''{'' # body) = s # brace_matches (drop (length s) (CHR ''{'' # body))"
    by (simp add: m del: drop_Suc_Cons)
  then show ?thesis by (simp add: s)
qed

lemma brace_matches_lines:
  assumes "list_all object_line objs"
  shows "brace_matches (join ''\<newline>'' objs) = objs"
  using assms
proof (induction "''\<newline>''" objs rule: join.induct)
  case 1
  show ?case by simp
next
  case (2 x)
  then show ?case by (simp add: brace_matches_line_last)
next
  case (3 x y ys)
  then show ?case by (simp add: brace_matches_line_then)
qed

lemma join_last_object:
  assumes "objs \<noteq> []" "list_all object_line objs"
  shows "join sep objs \<noteq> [] \<and> last (join sep objs) = CHR ''}''"
  using assms
proof (induction sep objs rule: join.induct)
  case (1 sep)
  then show ?case by simp
next
  case (2 sep x)
  then show ?case by (auto simp: object_line_def)
next
  case (3 sep x y ys)
  then show ?case by simp
qed

lemma trimEnd_trailer:
  assumes "s \<noteq> []" "\<not> is_white_space (last s)" "list_all is_white_space trailer"
  shows "trimEnd (s @ trailer) = s"
proof -
  have "dropWhile is_white_space (rev trailer @ rev s) = dropWhile is_white_space (rev s)"
    using assms(3) by (intro dropWhile_append2) (simp add: list_all_iff)
  also have "\<dots> = rev s"
    using assms(1,2) by (cases s rule: rev_cases) auto
  finally show ?thesis by (simp add: trimEnd_def)
qed

lemma newlines_to_commas_join:
  assumes "list_all object_line objs"
  shows "newlines_to_commas (join ''\<newline>'' objs) = join '','' objs"
  using assms
proof (induction "''\<newline>''" objs rule: join.induct)
  case 1
  show ?case by (simp add: newlines_to_commas_def)
next
  case (2 x)
  then have "map (\<lambda>c. if c = CHR 0x0A then CHR '','' else c) x = map (\<lambda>c. c) x"
    by (intro map_cong) (auto simp: object_line_def list_all_iff is_line_terminator_def)
  then show ?case by (simp add: newlines_to_commas_def)
next
  case (3 x y ys)
  then have "map (\<lambda>c. if c = CHR 0x0A then CHR '','' else c) x = map (\<lambda>c. c) x"
    by (intro map_cong) (auto simp: object_line_def list_all_iff is_line_terminator_def)
  with 3 show ?case by (simp add: newlines_to_commas_def)
qed

lemma apply_selector_None: "apply_selector key None metrics = Inr metrics"
  by (simp add: apply_selector_def truthy_def)

lemma listMetrics_no_selectors:
  assumes "engine (listMetrics_launch penv this name) = Exited out"
  shows "listMetrics engine penv this name no_selectors
           = and_then (JSON_parse (listMetrics_text out)) parsed_array"
proof -
  have "and_then r (\<lambda>metrics. and_then (Inr metrics) (\<lambda>metrics. and_then (Inr metrics) Inr)) = r"
    for r :: "js_error + json list"
    by (cases r) (simp_all add: and_then_def)
  then have "and_then p (\<lambda>parsed. and_then (parsed_array parsed)
               (\<lambda>metrics. and_then (Inr metrics) (\<lambda>metrics. and_then (Inr metrics) Inr)))
             = and_then p parsed_array" for p
    by simp
  then show ?thesis
    using assms
    by (simp add: listMetrics_def no_selectors_def apply_selector_None run_child_def
        and_then_def [of "Inr out"])
qed

lemma listMetrics_text_lines:
  assumes "objs \<noteq> []" "list_all object_line objs" "list_all is_white_space trailer"
  shows "listMetrics_text (join ''\<newline>'' objs @ trailer) = ''['' @ join '','' objs @ '']''"
proof -
  have l: "join ''\<newline>'' objs \<noteq> []" "last (join ''\<newline>'' objs) = CHR ''}''"
    using join_last_object [OF assms(1,2)] by simp_all
  have "trimEnd (join ''\<newline>'' objs @ trailer) = join ''\<newline>'' objs"
    using l assms(3) by (intro trimEnd_trailer) (simp_all add: is_white_space_def)
  then show ?thesis
    using assms(1) by (simp add: listMetrics_text_def brace_matches_lines [OF assms(2)] split: list.splits)
qed

lemma index_listMetrics_text_lines:
  assumes "objs \<noteq> []" "list_all object_line objs" "list_all is_white_space trailer"
  shows "index_listMetrics_text (join ''\<newline>'' objs @ trailer) = ''['' @ join '','' objs @ '']''"
proof -
  have l: "join ''\<newline>'' objs \<noteq> []" "last (join ''\<newline>'' objs) = CHR ''}''"
    using join_last_object [OF assms(1,2)] by simp_all
  have "trimEnd (join ''\<newline>'' objs @ trailer) = join ''\<newline>'' objs"
    using l assms(3) by (intro trimEnd_trailer) (simp_all add: is_white_space_def)
  then show ?thesis
    by (simp add: index_listMetrics_text_def newlines_to_commas_join [OF assms(2)])
qed

text \<open>
  \<^bold>\<open>C2\<close>.  The engine prints one object per line: the lines \<open>objs\<close>, separated by line
  feeds and followed by white space only.  Then the matches of the pattern are exactly
  these lines, the text handed to \<open>JSON.parse\<close> is the comma-separated list of the lines
  in brackets, and \<open>listMetrics\<close> (without selectors) returns the elements of the array
  parsed from that text.  The \<open>listMetrics\<close> of index.ts builds the same text.
\<close>

theorem listMetrics_concatenated_objects:
  assumes "objs \<noteq> []" and "list_all object_line objs" and "list_all is_white_space trailer"
    and "engine (listMetrics_launch penv this name) = Exited (join ''\<newline>'' objs @ trailer)"
  shows "brace_matches (trimEnd (join ''\<newline>'' objs @ trailer)) = objs
    \<and> listMetrics_text (join ''\<newline>'' objs @ trailer) = ''['' @ join '','' objs @ '']''
    \<and> listMetrics engine penv this name no_selectors
         = and_then (JSON_parse (''['' @ join '','' objs @ '']'')) parsed_array
    \<and> index_listMetrics_text (join ''\<newline>'' objs @ trailer) = ''['' @ join '','' objs @ '']''"
proof -
  have l: "join ''\<newline>'' objs \<noteq> []" "last (join ''\<newline>'' objs) = CHR ''}''"
    using join_last_object [OF assms(1,2)] by simp_all
  have "trimEnd (join ''\<newline>'' objs @ trailer) = join ''\<newline>'' objs"
    using l assms(3) by (intro trimEnd_trailer) (simp_all add: is_white_space_def)
  then have "brace_matches (trimEnd (join ''\<newline>'' objs @ trailer)) = objs"
    by (simp add: brace_matches_lines [OF assms(2)])
  then show ?thesis
    using listMetrics_no_selectors [of engine penv this name, OF assms(4)] listMetrics_text_lines [OF assms(1-3)]
      index_listMetrics_text_lines [OF assms(1-3)]
    by simp
qed

lemma parse_two_objects:
  \<open>JSON_parse ''[{"name":"a"},{"name":"b"}]''
     = Inr (JArray [JObject [(''name'', JString ''a'')], JObject [(''name'', JString ''b'')]])\<close>
  by code_simp

text \<open>
  The spec's example for C2: the two lines \<open>{"name":"a"}\<close> and \<open>{"name":"b"}\<close> give exactly
  two entries, named \<open>a\<close> and \<open>b\<close>.
\<close>

theorem listMetrics_concatenated_objects_witness:
  \<open>list_all object_line [''{"name":"a"}'', ''{"name":"b"}'']
   \<and> listMetrics (\<lambda>l. Exited ''{"name":"a"}\<newline>{"name":"b"}'') [] example_service None no_selectors
       = Inr [JObject [(''name'', JString ''a'')], JObject [(''name'', JString ''b'')]]\<close>
proof -
  have ol: \<open>list_all object_line [''{"name":"a"}'', ''{"name":"b"}'']\<close>
    by (simp add: object_line_def is_line_terminator_def)
  have \<open>listMetrics (\<lambda>l. Exited ''{"name":"a"}\<newline>{"name":"b"}'') [] example_service None no_selectors
       = and_then (JSON_parse ''[{"name":"a"},{"name":"b"}]'') parsed_array\<close>
    using listMetrics_concatenated_objects
      [of \<open>[''{"name":"a"}'', ''{"name":"b"}'']\<close> "[]"
          \<open>\<lambda>l. Exited ''{"name":"a"}\<newline>{"name":"b"}''\<close> "[]" example_service None, OF _ ol]
    by simp
  with ol show ?thesis
    by (simp add: parse_two_objects and_then_def parsed_array_def)
qed


section \<open>Query results\<close>

lemma queryMetric_exited:
  assumes "engine (queryMetric_launch penv this params) = Exited raw_output"
  shows "queryMetric engine penv this params
           = (case JSON_parse (payload raw_output) of
                Inl e \<Rightarrow> Inl (JsError None)
              | Inr v \<Rightarrow> Inr v)"
proof (cases "JSON_parse (payload raw_output)")
  case (Inl e)
  moreover from Inl have "e = SyntaxError"
    by (auto simp: JSON_parse_def split: option.splits)
  ultimately show ?thesis
    using assms by (simp add: queryMetric_def run_child_def and_then_def)
next
  case (Inr v)
  then show ?thesis
    using assms by (simp add: queryMetric_def run_child_def and_then_def)
qed

lemma queryMetric_child_failed:
  assumes "engine (queryMetric_launch penv this params) = Failed out"
  shows "queryMetric engine penv this params = Inl (JsError (Some out))"
  using assms by (simp add: queryMetric_def run_child_def and_then_def)

lemma indexOf_from_first:
  assumes "\<forall>i < length pre. \<not> prefix needle (drop i (pre @ needle @ rest))"
  shows "indexOf_from k (pre @ needle @ rest) needle = int (k + length pre)"
  using assms
proof (induction pre arbitrary: k)
  case Nil
  show ?case
  proof (cases "needle @ rest")
    case Nil
    then show ?thesis by simp
  next
    case (Cons c cs)
    then have "prefix needle (c # cs)" by (metis prefixI)
    with Cons show ?thesis by simp
  qed
next
  case (Cons p ps)
  from Cons.prems have "\<not> prefix needle (p # ps @ needle @ rest)"
    by fastforce
  moreover have "\<forall>i < length ps. \<not> prefix needle (drop i (ps @ needle @ rest))"
  proof (intro allI impI)
    fix i assume "i < length ps"
    with Cons.prems have "\<not> prefix needle (drop (Suc i) ((p # ps) @ needle @ rest))"
      by (metis Suc_less_eq length_Cons)
    then show "\<not> prefix needle (drop i (ps @ needle @ rest))" by simp
  qed
  ultimately show ?case
    using Cons.IH [of "Suc k"] by simp
qed

lemma payload_after_first_delimiter:
  assumes "\<forall>i < length pre. \<not> prefix BREAK_STRING (drop i (pre @ BREAK_STRING @ rest))"
  shows "payload (pre @ BREAK_STRING @ rest) = rest"
  using indexOf_from_first [OF assms, of 0]
  by (simp add: payload_def indexOf_def slice_def)

lemma parse_x1: \<open>JSON_parse ''{"x":1}'' = Inr (JObject [(''x'', JNumber 1 0)])\<close>
  by code_simp

lemma payload_spec_example:
  \<open>payload ''notice\<newline><<<MAPI-BEGIN>>>\<newline>{"x":1}'' = ''{"x":1}''\<close>
  by code_simp

lemma queryMetric_spec_example:
  \<open>queryMetric (\<lambda>l. Exited ''notice\<newline><<<MAPI-BEGIN>>>\<newline>{"x":1}'') penv this params
     = Inr (JObject [(''x'', JNumber 1 0)])\<close>
  by (simp add: queryMetric_exited payload_spec_example parse_x1)

lemma indexOf_no_delimiter: \<open>indexOf ''Running with dbt{"x":1}'' BREAK_STRING = - 1\<close>
  by code_simp

lemma payload_no_delimiter: \<open>payload ''Running with dbt{"x":1}'' = ''{"x":1}''\<close>
  by code_simp

text \<open>
  \<^bold>\<open>C1\<close>.  The claim asks for a failure when the output has no delimiter line.  The code
  does not look at the result of \<open>indexOf\<close>: for an output without the delimiter it is
  \<open>-1\<close>, the slice starts at index 16, and what follows is parsed.  The output
  \<open>Running with dbt{"x":1}\<close> has no delimiter, and the call returns the object \<open>{x: 1}\<close>.
\<close>

theorem queryMetric_without_delimiter:
  \<open>indexOf ''Running with dbt{"x":1}'' BREAK_STRING = - 1
   \<and> queryMetric (\<lambda>l. Exited ''Running with dbt{"x":1}'') penv this params
       = Inr (JObject [(''x'', JNumber 1 0)])\<close>
  by (simp add: queryMetric_exited payload_no_delimiter parse_x1 indexOf_no_delimiter)

lemma payload_csv:
  \<open>payload ''log\<newline><<<MAPI-BEGIN>>>\<newline>period,revenue\<newline>2024-01-01,10\<newline>''
     = ''period,revenue\<newline>2024-01-01,10\<newline>''\<close>
  by code_simp

lemma parse_csv: \<open>JSON_parse ''period,revenue\<newline>2024-01-01,10\<newline>'' = Inl SyntaxError\<close>
  by code_simp

text \<open>
  \<^bold>\<open>C6\<close>.  The claim asks for the raw text when the format is \<open>csv\<close>.  The code parses
  the payload as JSON whatever the format is: with the format \<open>csv\<close> and a delimited
  payload of two lines, \<open>JSON.parse\<close> throws, and the call throws \<open>new Error(undefined)\<close>.
\<close>

theorem queryMetric_csv_is_parsed:
  \<open>format (params\<lparr>format := Some ''csv''\<rparr>) = Some ''csv''
   \<and> queryMetric
         (\<lambda>l. Exited ''log\<newline><<<MAPI-BEGIN>>>\<newline>period,revenue\<newline>2024-01-01,10\<newline>'')
         penv this (params\<lparr>format := Some ''csv''\<rparr>)
       = Inl (JsError None)\<close>
  by (simp add: queryMetric_exited payload_csv parse_csv)

subsection \<open>listMetrics without a match\<close>

lemma parse_undefined: \<open>JSON_parse ''[undefined]'' = Inl SyntaxError\<close>
  by code_simp

lemma listMetrics_child_failed:
  assumes "engine (listMetrics_launch penv this name) = Failed out"
  shows "listMetrics engine penv this name selectors = Inl (ChildProcessError out)"
  using assms by (simp add: listMetrics_def run_child_def and_then_def)

lemma listMetrics_no_span:
  assumes "engine (listMetrics_launch penv this name) = Exited out"
    and "brace_matches (trimEnd out) = []"
  shows "listMetrics engine penv this name selectors = Inl SyntaxError"
  using assms
  by (simp add: listMetrics_def run_child_def and_then_def listMetrics_text_def parse_undefined)

lemma parse_empty_array: "JSON_parse ''[]'' = Inr (JArray [])"
  by code_simp

lemma index_listMetrics_empty_output:
  "index_listMetrics (\<lambda>l. Exited []) penv name None None = Inr []"
  by (simp add: index_listMetrics_def run_child_def and_then_def index_listMetrics_text_def
      trimEnd_def newlines_to_commas_def parse_empty_array parsed_array_def apply_selector_None)

text \<open>
  \<^bold>\<open>C7\<close>.  The claim asks for the empty list when a name filter matches nothing.  With
  an empty output the pattern has no match, the text handed to \<open>JSON.parse\<close> is
  \<open>[undefined]\<close>, and \<open>listMetrics\<close> throws a syntax error, with or without a name filter.
  The \<open>listMetrics\<close> of index.ts returns the empty list for the same output.
\<close>

theorem listMetrics_no_match_throws:
  \<open>listMetrics_text [] = ''[undefined]''
   \<and> listMetrics (\<lambda>l. Exited []) penv this (Some ''nosuch'') selectors = Inl SyntaxError
   \<and> listMetrics (\<lambda>l. Exited []) penv this None selectors = Inl SyntaxError
   \<and> index_listMetrics (\<lambda>l. Exited []) penv (Some ''nosuch'') None None = Inr []\<close>
  by (simp add: listMetrics_no_span trimEnd_def index_listMetrics_empty_output)
     (simp add: listMetrics_text_def trimEnd_def)


section \<open>Starting the engine\<close>

lemma launched_list_handler:
  "launched (list_handler engine penv name type model)
     = [ExecSync (index_listMetrics_command penv name)]"
  by (simp add: list_handler_def Let_def split: sum.splits)

lemma launched_run_handler:
  "launched (run_handler engine penv a b)
     = (if \<not> json_truthy (body_metric_name b) \<and> \<not> json_truthy (body_grain b) then []
        else [ExecSync (run_command penv (run_format a) b)])"
  by (simp add: run_handler_def Let_def send_def split: sum.splits)

lemma service_launches_without_shell:
  "\<not> uses_shell (listMetrics_launch penv this name)
   \<and> \<not> uses_shell (queryMetric_launch penv this params)"
  by (simp add: listMetrics_launch_def queryMetric_launch_def)

lemma listMetrics_args_name:
  assumes "n \<noteq> []"
  shows "listMetrics_args this (Some n)
           = ([''ls''] @ connection_flags this) @ [''--select'', ''metric:'' @ remove_quotes n]
             @ drop (length ([''ls''] @ connection_flags this)) (listMetrics_args this None)"
  using assms by (simp add: listMetrics_args_def select_def)

text \<open>
  \<^bold>\<open>C8\<close>.  The claim asks for an argument vector on every surface.  The two
  handlers of index.ts hand a single command line to a shell, with the caller's values
  written into it: for the name filter \<open>$(id)\<close> the command line of \<open>GET /list\<close> ends in
  \<open>--select "metric:$(id)"\<close>.
\<close>

theorem index_interpolates_name_into_shell_command:
  \<open>launched (list_handler engine [(''DBT_PROJECT_PATH'', ''/srv/dbt'')] (Some ''$(id)'') type model)
     = [ExecSync
         (''cd /srv/dbt &&        dbt ls --resource-type metric --output json ''
          @ ''        --output-keys "name model label description type time_grains dimensions filters unique_id" ''
          @ ''        --select "metric:$(id)"'')]
   \<and> uses_shell (ExecSync (index_listMetrics_command penv name))
   \<and> uses_shell (ExecSync (run_command penv fmt b))\<close>
  by (simp add: launched_list_handler index_listMetrics_command_def index_select_def
      remove_quotes_def env_text_def obj_get_def)

subsection \<open>POST /run with a missing property\<close>

lemma responded_run_handler_missing:
  assumes "\<not> json_truthy (body_metric_name b) \<or> \<not> json_truthy (body_grain b)"
  shows "map_option rsp_status (responded (run_handler engine penv a b)) = Some 400"
  using assms
  by (auto simp: run_handler_def Let_def send_def run_try_def and_then_def run_child_def
      split: sum.splits child.splits)

text \<open>
  \<^bold>\<open>C9\<close>.  The claim asks that no engine is started for a request without
  \<open>metric_name\<close> or without \<open>grain\<close>.  For the body \<open>{"metric_name": "revenue"}\<close> the
  handler answers 400 with the error body and then starts the engine all the same.
\<close>

theorem run_handler_launches_after_400:
  "responded (run_handler engine penv AcceptsJson body_without_grain)
     = Some \<lparr>rsp_status = 400, rsp_type = ''application/json'', rsp_body = missing_grain\<rparr>
   \<and> launched (run_handler engine penv AcceptsJson body_without_grain)
     = [ExecSync (run_command penv ''json'' body_without_grain)]"
  by (simp add: launched_run_handler run_format_def)
     (auto simp: run_handler_def Let_def send_def run_try_def and_then_def run_child_def
      body_without_grain_def split: sum.splits child.splits)

subsection \<open>Quotes in a name filter\<close>

lemma select_nonempty:
  assumes "n \<noteq> []"
  shows "select (Some n) = ''metric:'' @ remove_quotes n \<and> CHR 0x22 \<notin> set (select (Some n))"
  using assms by (simp add: select_def remove_quotes_def)

text \<open>
  \<^bold>\<open>C10\<close>, as the code has it.  For a name filter that is not empty the selector is
  \<open>metric:\<close> followed by the name without its double quotes, and it contains no double
  quote; two non-empty names that differ only in double quotes give the same selector
  and the same call of the engine.
\<close>

theorem quotes_removed_from_selector:
  assumes "n1 \<noteq> []" and "n2 \<noteq> []" and "remove_quotes n1 = remove_quotes n2"
  shows "select (Some n1) = ''metric:'' @ remove_quotes n1
    \<and> CHR 0x22 \<notin> set (select (Some n1))
    \<and> select (Some n1) = select (Some n2)
    \<and> listMetrics_launch penv this (Some n1) = listMetrics_launch penv this (Some n2)"
  using assms select_nonempty [OF assms(1)]
  by (simp add: listMetrics_launch_def listMetrics_args_def) (simp add: select_def)

text \<open>
  The names \<open>rev"enue\<close> and \<open>revenue\<close>.
\<close>

theorem quotes_removed_from_selector_witness:
  \<open>''rev"enue'' \<noteq> [] \<and> ''revenue'' \<noteq> [] \<and> remove_quotes ''rev"enue'' = remove_quotes ''revenue''
   \<and> select (Some ''rev"enue'') = ''metric:revenue''
   \<and> listMetrics_launch [] example_service (Some ''rev"enue'')
       = listMetrics_launch [] example_service (Some ''revenue'')\<close>
  using quotes_removed_from_selector [of \<open>''rev"enue''\<close> "''revenue''" "[]" example_service]
  by (simp add: remove_quotes_def)

text \<open>
  C10 as stated fails for the empty name and the name that is one double quote: they
  differ only in double quotes, but the empty name is no filter at all, while the other
  one selects \<open>metric:\<close>.
\<close>

theorem only_quotes_selector_counterexample:
  \<open>remove_quotes [CHR 0x22] = remove_quotes []
   \<and> select (Some []) = []
   \<and> select (Some [CHR 0x22]) = ''metric:''
   \<and> listMetrics_args example_service (Some [])
       = [''ls'', ''--target'', ''prod'', ''--resource-type'', ''metric'', ''--output'', ''json'',
          ''--output-keys'',
          ''"name model label description type time_grains dimensions filters unique_id package_name"'']
   \<and> listMetrics_args example_service (Some [CHR 0x22])
       = [''ls'', ''--target'', ''prod'', ''--select'', ''metric:'', ''--resource-type'', ''metric'',
          ''--output'', ''json'', ''--output-keys'',
          ''"name model label description type time_grains dimensions filters unique_id package_name"'']
   \<and> listMetrics_launch [] example_service (Some [])
       \<noteq> listMetrics_launch [] example_service (Some [CHR 0x22])\<close>
  by (simp add: select_def remove_quotes_def listMetrics_args_def listMetrics_launch_def
      example_service_def connection_flags_def flag_def)

section \<open>Refreshing the schema\<close>

lemma published_split:
  assumes "published rt = Some (sch, rv)"
  obtains pre post where "stack rt = pre @ GraphqlHTTP sch rv # post"
    and "list_all (\<lambda>l. \<not> is_graphqlHTTP l) pre"
proof -
  have eq: "(\<lambda>l. case l of GraphqlHTTP _ _ \<Rightarrow> True | _ \<Rightarrow> False) = is_graphqlHTTP"
    by (rule ext) (simp split: layer.splits)
  from assms obtain rest where f: "filter is_graphqlHTTP (stack rt) = GraphqlHTTP sch rv # rest"
    by (auto simp: published_def eq split: list.splits layer.splits)
  then obtain pre post where "stack rt = pre @ GraphqlHTTP sch rv # post"
    and "\<forall>l \<in> set pre. \<not> is_graphqlHTTP l"
    by (auto simp: filter_eq_Cons_iff)
  then show thesis
    by (intro that [of pre post]) (simp_all add: list_all_iff)
qed

lemma published_append:
  assumes "list_all (\<lambda>l. \<not> is_graphqlHTTP l) pre"
  shows "published \<lparr>stack = pre @ GraphqlHTTP sch rv # post, console = c\<rparr> = Some (sch, rv)"
proof -
  have eq: "(\<lambda>l. case l of GraphqlHTTP _ _ \<Rightarrow> True | _ \<Rightarrow> False) = is_graphqlHTTP"
    by (rule ext) (simp split: layer.splits)
  have "filter is_graphqlHTTP pre = []"
    using assms by (simp add: list_all_iff)
  then show ?thesis
    by (simp add: published_def eq)
qed

lemma new_GraphQLSchema_no_metrics:
  "new_GraphQLSchema (QueryType []) = Inr (GraphQLSchema (GraphQLObjectType ''Query'' []))"
  by (simp add: new_GraphQLSchema_def QueryType_def fromEntries_def obj_assign_def
      schema_type_names_def builtin_type_names_def)

lemma graphqlInit_failed:
  "graphqlInit (Inl error) rt
     = (\<lparr>stack = stack rt @ [Reinit],
         console = console rt @ [Warn error, Info (GraphQLSchema (GraphQLObjectType ''Query'' []))]\<rparr>,
        None)"
  by (simp add: graphqlInit_def availableMetrics_of_def new_GraphQLSchema_no_metrics root_def
      obj_keys_def)

lemma graphqlInit_accepted:
  assumes "discovery_accepted d"
  obtains rt' l where "graphqlInit d rt = (rt', None)" and "stack rt' = stack rt @ [l]"
  using assms
  by (auto simp: discovery_accepted_def graphqlInit_def Let_def split: sum.splits)

lemma graphqlInit_rejected:
  assumes "\<not> discovery_accepted d"
  obtains rt' where
    "graphqlInit d rt = (rt', Some SchemaError)" and "stack rt' = stack rt"
  using assms
  by (auto simp: discovery_accepted_def graphqlInit_def Let_def new_GraphQLSchema_def
      split: sum.splits if_splits)

text \<open>
  What a query is served depends only on the layers up to the first \<open>graphqlHTTP\<close>
  layer and on the discoveries made on the way.
\<close>

lemma dispatch_same_prefix:
  assumes "stack rt1 = pre @ GraphqlHTTP sch rv # post1"
    and "stack rt2 = pre @ GraphqlHTTP sch rv # post2"
    and "i \<le> length pre"
  shows "map_option fst (dispatch ds i rt1) = map_option fst (dispatch ds i rt2)"
  using assms
proof (induction "length pre - i" arbitrary: i ds rt1 rt2 post1 post2)
  case 0
  then have i: "i = length pre" by simp
  with "0.prems"(1,2) have "stack rt1 ! i = GraphqlHTTP sch rv" "\<not> length (stack rt1) \<le> i"
    "stack rt2 ! i = GraphqlHTTP sch rv" "\<not> length (stack rt2) \<le> i"
    by simp_all
  then show ?case
    by (subst dispatch.simps, subst (2) dispatch.simps) simp
next
  case (Suc k)
  then have lt: "i < length pre" by simp
  with Suc.prems(1,2) have at: "stack rt1 ! i = pre ! i" "stack rt2 ! i = pre ! i"
    and inside: "\<not> length (stack rt1) \<le> i" "\<not> length (stack rt2) \<le> i"
    by (simp_all add: nth_append)
  show ?case
  proof (cases "pre ! i")
    case PostRefresh
    have "map_option fst (dispatch ds (Suc i) rt1) = map_option fst (dispatch ds (Suc i) rt2)"
      using Suc.hyps(2) Suc.prems(1,2) lt
      by (intro Suc.hyps(1) [of "Suc i" rt1 post1 rt2 post2 ds]) simp_all
    with at inside PostRefresh show ?thesis
      by (subst dispatch.simps, subst (2) dispatch.simps) simp
  next
    case (GraphqlHTTP s r)
    with at inside show ?thesis
      by (subst dispatch.simps, subst (2) dispatch.simps) simp
  next
    case Reinit
    show ?thesis
    proof (cases ds)
      case Nil
      with at inside Reinit show ?thesis
        by (subst dispatch.simps, subst (2) dispatch.simps) simp
    next
      case (Cons d ds')
      show ?thesis
      proof (cases "discovery_accepted d")
        case True
        obtain r1 l where g1: "graphqlInit d rt1 = (r1, None)" and s1: "stack r1 = stack rt1 @ [l]"
          using True by (rule graphqlInit_accepted)
        obtain r2 l' where g2: "graphqlInit d rt2 = (r2, None)" and s2: "stack r2 = stack rt2 @ [l']"
          using True by (rule graphqlInit_accepted)
        have "map_option fst (dispatch ds' (Suc i) r1) = map_option fst (dispatch ds' (Suc i) r2)"
          using Suc.hyps(2) Suc.prems(1,2) lt s1 s2
          by (intro Suc.hyps(1) [of "Suc i" r1 "post1 @ [l]" r2 "post2 @ [l']" ds']) simp_all
        with at inside Reinit Cons g1 g2 show ?thesis
          by (subst dispatch.simps, subst (2) dispatch.simps) simp
      next
        case False
        obtain r1 where g1: "graphqlInit d rt1 = (r1, Some SchemaError)"
          using False by (rule graphqlInit_rejected)
        obtain r2 where g2: "graphqlInit d rt2 = (r2, Some SchemaError)"
          using False by (rule graphqlInit_rejected)
        from at inside Reinit Cons g1 g2 show ?thesis
          by (subst dispatch.simps, subst (2) dispatch.simps) simp
      qed
    qed
  qed
qed

lemma dispatch_reaches_answer:
  assumes "stack rt = pre @ GraphqlHTTP sch rv # post"
    and "list_all (\<lambda>l. \<not> is_graphqlHTTP l) pre"
    and "i \<le> length pre"
    and "length (filter (\<lambda>l. l = Reinit) (drop i pre)) \<le> length ds"
    and "list_all discovery_accepted ds"
  shows "\<exists>rt'. dispatch ds i rt = Some (Answered sch rv, rt')"
  using assms
proof (induction "length pre - i" arbitrary: i ds rt post)
  case 0
  then have i: "i = length pre" by simp
  with "0.prems"(1) have "stack rt ! i = GraphqlHTTP sch rv" "\<not> length (stack rt) \<le> i"
    by simp_all
  then show ?case
    by (subst dispatch.simps) simp
next
  case (Suc k)
  then have lt: "i < length pre" by simp
  with Suc.prems(1) have at: "stack rt ! i = pre ! i" and inside: "\<not> length (stack rt) \<le> i"
    by (simp_all add: nth_append)
  from lt have dr: "drop i pre = pre ! i # drop (Suc i) pre"
    by (simp add: Cons_nth_drop_Suc)
  from Suc.prems(2) lt have nh: "\<not> is_graphqlHTTP (pre ! i)"
    by (simp add: list_all_length)
  show ?case
  proof (cases "pre ! i")
    case PostRefresh
    have "\<exists>rt'. dispatch ds (Suc i) rt = Some (Answered sch rv, rt')"
      using Suc.hyps(2) Suc.prems lt dr PostRefresh
      by (intro Suc.hyps(1) [of "Suc i" rt post ds]) simp_all
    with at inside PostRefresh show ?thesis
      by (subst dispatch.simps) simp
  next
    case (GraphqlHTTP s r)
    with nh show ?thesis by simp
  next
    case Reinit
    with Suc.prems(4,5) dr obtain d ds' where ds: "ds = d # ds'"
      and enough: "length (filter (\<lambda>l. l = Reinit) (drop (Suc i) pre)) \<le> length ds'"
      and acc: "discovery_accepted d" "list_all discovery_accepted ds'"
      by (cases ds) simp_all
    obtain r l where g: "graphqlInit d rt = (r, None)" and sr: "stack r = stack rt @ [l]"
      using acc(1) by (rule graphqlInit_accepted)
    have "\<exists>rt'. dispatch ds' (Suc i) r = Some (Answered sch rv, rt')"
      using Suc.hyps(2) Suc.prems(1,2) lt enough acc(2) sr
      by (intro Suc.hyps(1) [of "Suc i" r "post @ [l]" ds']) simp_all
    with at inside Reinit ds g show ?thesis
      by (subst dispatch.simps) simp
  qed
qed

text \<open>
  \<^bold>\<open>C3\<close>.  Let a schema and its root value be published, and let the discovery of a
  refresh fail.  Then \<open>graphqlInit\<close> returns without throwing (and \<open>POST /refresh\<close> answers
  200); it logs the error as a warning; all it adds to the router is a re-initialising
  layer behind the existing ones; the published schema and root value are the same as
  before; every query is served exactly as it was before the refresh, whatever the
  discoveries made on its way give; and it is answered from the published schema and
  root value when the schema constructor accepts the catalogs of those discoveries
  (\<open>ds\<close> holds one result for each re-initialising layer the query passes).
\<close>

theorem failed_refresh_keeps_published_schema:
  assumes "published rt = Some (sch, rv)"
    and "reinits_before_answer rt \<le> length ds"
    and "list_all discovery_accepted ds"
  shows "graphqlInit (Inl error) rt
           = (\<lparr>stack = stack rt @ [Reinit],
               console = console rt
                 @ [Warn error, Info (GraphQLSchema (GraphQLObjectType ''Query'' []))]\<rparr>,
              None)
    \<and> refreshSchema (Inl error) rt = (fst (graphqlInit (Inl error) rt), Inr 200)
    \<and> published (fst (graphqlInit (Inl error) rt)) = Some (sch, rv)
    \<and> map_option fst (dispatch any 0 (fst (graphqlInit (Inl error) rt)))
        = map_option fst (dispatch any 0 rt)
    \<and> (\<exists>rt'. dispatch ds 0 (fst (graphqlInit (Inl error) rt)) = Some (Answered sch rv, rt'))"
proof -
  from assms(1) obtain pre post where st: "stack rt = pre @ GraphqlHTTP sch rv # post"
    and pre: "list_all (\<lambda>l. \<not> is_graphqlHTTP l) pre"
    by (rule published_split)
  let ?rt = "fst (graphqlInit (Inl error) rt)"
  have st': "stack ?rt = pre @ GraphqlHTTP sch rv # (post @ [Reinit])"
    by (simp add: graphqlInit_failed st)
  have tw: "takeWhile (\<lambda>l. \<not> is_graphqlHTTP l) (stack rt) = pre"
    using pre by (simp add: st list_all_iff takeWhile_append2)
  have "published ?rt = Some (sch, rv)"
    using published_append [OF pre] by (simp add: graphqlInit_failed st)
  moreover have "map_option fst (dispatch any 0 ?rt) = map_option fst (dispatch any 0 rt)"
    by (rule dispatch_same_prefix [OF st' st]) simp
  moreover have "\<exists>rt'. dispatch ds 0 ?rt = Some (Answered sch rv, rt')"
    using assms(2,3)
    by (intro dispatch_reaches_answer [OF st' pre]) (simp_all add: reinits_before_answer_def tw)
  ultimately show ?thesis
    by (simp add: graphqlInit_failed refreshSchema_def)
qed

lemma new_GraphQLSchema_revenue:
  "new_GraphQLSchema (QueryType [metric_with ''revenue'' [''region'']]) = Inr revenue_schema"
  by (simp add: new_GraphQLSchema_def revenue_schema_def QueryType_def fromEntries_def
      obj_assign_def query_field_def metricToGraphQLType_def metric_with_def
      schema_type_names_def builtin_type_names_def)

lemma res_name_metric_with: "res_name (metric_with n ds) = n"
  by (simp add: metric_with_def)

lemma revenue_router_eq:
  "revenue_router
     = \<lparr>stack = [PostRefresh, Reinit, GraphqlHTTP revenue_schema [(''revenue'', MetricResolver)]],
        console = [Warn (ChildProcessError ''Runtime Error''),
                   Info (GraphQLSchema (GraphQLObjectType ''Query'' [])),
                   Info revenue_schema]\<rparr>"
  by (simp add: revenue_router_def graphqlInit_failed initial_router_def)
     (simp add: graphqlInit_def availableMetrics_of_def new_GraphQLSchema_revenue root_def
      obj_assign_def obj_keys_def res_name_metric_with Let_def)

lemma failed_discovery_accepted: "discovery_accepted (Inl error)"
  by (simp add: discovery_accepted_def availableMetrics_of_def new_GraphQLSchema_no_metrics)

text \<open>
  A router whose start-up discovery failed and that serves the metric \<open>revenue\<close> since a
  later one, a refresh whose discovery exits non-zero, and a query on whose way the
  discovery fails again.
\<close>

theorem failed_refresh_keeps_published_schema_witness:
  "published revenue_router = Some (revenue_schema, [(''revenue'', MetricResolver)])
   \<and> reinits_before_answer revenue_router \<le> length [Inl (ChildProcessError ''Runtime Error'') :: discovery]
   \<and> list_all discovery_accepted [Inl (ChildProcessError ''Runtime Error'')]
   \<and> published (fst (graphqlInit (Inl (ChildProcessError ''Runtime Error'')) revenue_router))
       = Some (revenue_schema, [(''revenue'', MetricResolver)])
   \<and> stack (fst (graphqlInit (Inl (ChildProcessError ''Runtime Error'')) revenue_router))
       = [PostRefresh, Reinit, GraphqlHTTP revenue_schema [(''revenue'', MetricResolver)], Reinit]
   \<and> (\<exists>rt'. dispatch [Inl (ChildProcessError ''Runtime Error'')] 0
               (fst (graphqlInit (Inl (ChildProcessError ''Runtime Error'')) revenue_router))
              = Some (Answered revenue_schema [(''revenue'', MetricResolver)], rt'))"
proof -
  have p: "published revenue_router = Some (revenue_schema, [(''revenue'', MetricResolver)])"
    by (simp add: revenue_router_eq published_def)
  have r: "reinits_before_answer revenue_router
             \<le> length [Inl (ChildProcessError ''Runtime Error'') :: discovery]"
    by (simp add: revenue_router_eq reinits_before_answer_def)
  have a: "list_all discovery_accepted [Inl (ChildProcessError ''Runtime Error'')]"
    by (simp add: failed_discovery_accepted)
  have s: "stack (fst (graphqlInit (Inl (ChildProcessError ''Runtime Error'')) revenue_router))
             = [PostRefresh, Reinit, GraphqlHTTP revenue_schema [(''revenue'', MetricResolver)], Reinit]"
    by (simp add: graphqlInit_failed revenue_router_eq)
  from failed_refresh_keeps_published_schema [OF p r a, of "ChildProcessError ''Runtime Error''"]
  have "published (fst (graphqlInit (Inl (ChildProcessError ''Runtime Error'')) revenue_router))
          = Some (revenue_schema, [(''revenue'', MetricResolver)])"
    and "\<exists>rt'. dispatch [Inl (ChildProcessError ''Runtime Error'')] 0
               (fst (graphqlInit (Inl (ChildProcessError ''Runtime Error'')) revenue_router))
              = Some (Answered revenue_schema [(''revenue'', MetricResolver)], rt')"
    by blast+
  with p r a s show ?thesis by blast
qed

text \<open>
  A discovery made on the way whose catalog the schema constructor rejects: a metric
  named \<open>Query\<close>.  The error leaves the re-initialising layer and the query is not
  answered, before the failed refresh and after it alike.
\<close>

lemma new_GraphQLSchema_rejects_Query:
  "new_GraphQLSchema (QueryType [metric_with ''Query'' []]) = Inl SchemaError"
  by (simp add: new_GraphQLSchema_def QueryType_def fromEntries_def
      obj_assign_def query_field_def metricToGraphQLType_def metric_with_def
      schema_type_names_def builtin_type_names_def)

lemma new_GraphQLSchema_rejects_scalar_names:
  "new_GraphQLSchema (QueryType [metric_with ''String'' []]) = Inl SchemaError"
  "new_GraphQLSchema (QueryType [metric_with ''Float'' []]) = Inl SchemaError"
  by (simp_all add: new_GraphQLSchema_def QueryType_def fromEntries_def
      obj_assign_def query_field_def metricToGraphQLType_def metric_with_def
      schema_type_names_def builtin_type_names_def)

lemma graphqlInit_rejected_catalog:
  "graphqlInit (Inr [metric_with ''Query'' []]) rt = (rt, Some SchemaError)"
  by (simp add: graphqlInit_def availableMetrics_of_def new_GraphQLSchema_rejects_Query)

lemma dispatch_rejected_discovery:
  "map_option fst (dispatch [Inr [metric_with ''Query'' []]] 0 revenue_router)
     = Some (Raised SchemaError)"
  by (simp add: revenue_router_eq graphqlInit_def availableMetrics_of_def
      new_GraphQLSchema_rejects_Query Let_def)

end
